theory Spec2Isabelle
  imports Main "HOL-Library.Sublist"
begin

section \<open>Search-parameter compiler (packages/core/src/search/details.ts)\<close>

subsection \<open>Strings\<close>

text \<open>
  JavaScript's \<open>String.prototype.startsWith\<close> and \<open>endsWith\<close>, on strings as character
  lists.
\<close>

definition startsWith :: "string \<Rightarrow> string \<Rightarrow> bool" where
  "startsWith s p = (take (length p) s = p)"

definition endsWith :: "string \<Rightarrow> string \<Rightarrow> bool" where
  "endsWith s p = (length p \<le> length s \<and> drop (length s - length p) s = p)"

text \<open>\<open>Array.prototype.join\<close> with a separator.\<close>

fun join :: "string \<Rightarrow> string list \<Rightarrow> string" where
  "join sep [] = []"
| "join sep [x] = x"
| "join sep (x # y # zs) = x @ sep @ join sep (y # zs)"

text \<open>\<open>String.prototype.split\<close> on a one-character separator.\<close>

fun split :: "char \<Rightarrow> string \<Rightarrow> string list" where
  "split c [] = [[]]"
| "split c (x # xs) =
     (if x = c then [] # split c xs
      else (case split c xs of [] \<Rightarrow> [[x]] | w # ws \<Rightarrow> (x # w) # ws))"

text \<open>
  The builtins \<open>toLocaleLowerCase\<close>, \<open>toLowerCase\<close> and \<open>toUpperCase\<close>, on the ASCII letters;
  every other character is left as it is.
\<close>

definition lowerChar :: "char \<Rightarrow> char" where
  "lowerChar c =
     (let n = (of_char c :: nat) in if 65 \<le> n \<and> n \<le> 90 then char_of (n + 32) else c)"

definition upperChar :: "char \<Rightarrow> char" where
  "upperChar c =
     (let n = (of_char c :: nat) in if 97 \<le> n \<and> n \<le> 122 then char_of (n - 32) else c)"

definition toLowerCase :: "string \<Rightarrow> string" where
  "toLowerCase s = map lowerChar s"

text \<open>
  Modelled from the spec: \<open>capitalize\<close> of ../utils, which is not among the sources; the spec
  says that the column name is the camelCase of the hyphenated code, so a word is
  capitalised by upper-casing its first character.
\<close>

definition capitalize :: "string \<Rightarrow> string" where
  "capitalize w = (case w of [] \<Rightarrow> [] | c # cs \<Rightarrow> upperChar c # cs)"

subsection \<open>Data model\<close>

text \<open>
  The FHIRPath atoms. The classes are declared in ../fhirpath/atoms, which is not among
  the sources; the datatype has one constructor for each class the compiler tests with
  \<open>instanceof\<close>, and \<open>OtherAtom\<close> for every other atom (symbols, literals, arithmetic),
  which the compiler only renders. \<open>IsAtom\<close> is one of the boolean infix operators.
\<close>

datatype Atom =
    OtherAtom string
  | DotAtom Atom Atom
  | UnionAtom Atom Atom
  | AsAtom Atom Atom
  | IsAtom Atom Atom
  | IndexerAtom Atom Atom
  | FunctionAtom string "Atom list"
  | BooleanInfixOperatorAtom string Atom Atom

fun isBooleanInfixOperatorAtom :: "Atom \<Rightarrow> bool" where
  "isBooleanInfixOperatorAtom (BooleanInfixOperatorAtom opr l r) = True"
| "isBooleanInfixOperatorAtom (IsAtom l r) = True"
| "isBooleanInfixOperatorAtom a = False"

fun isIsAtom :: "Atom \<Rightarrow> bool" where
  "isIsAtom (IsAtom l r) = True"
| "isIsAtom a = False"

fun isIndexerAtom :: "Atom \<Rightarrow> bool" where
  "isIndexerAtom (IndexerAtom l e) = True"
| "isIndexerAtom a = False"

text \<open>
  A search parameter. \<open>code\<close> and \<open>type\<close> are read with a cast to string throughout the
  source; \<open>id\<close> may be absent; \<open>sp_expression\<close> is the expression as \<open>parseFhirPath\<close> returns
  it (the parser is not among the sources).
\<close>

record SearchParameter =
  sp_id :: "string option"
  sp_code :: string
  sp_type :: string
  sp_expression :: Atom

text \<open>
  An element of the structural schema: whether it is multi-valued, and the codes of its
  declared types (more than one for a choice-of-type element).
\<close>

record InternalSchemaElement =
  el_path :: string
  el_isArray :: bool
  el_type :: "string list"

datatype SearchParameterType =
  BOOLEAN | NUMBER | QUANTITY | TEXT | REFERENCE | CANONICAL | DATE | DATETIME | PERIOD | UUID

datatype Implementation = ImplColumn | ImplLookupTable | ImplTokenColumns

record SearchParameterDetails =
  columnName :: string
  detailsType :: SearchParameterType
  elementDefinitions :: "InternalSchemaElement list"
  array :: bool
  implementation :: Implementation

record SearchParameterDetailsBuilder =
  b_elementDefinitions :: "InternalSchemaElement list"
  b_propertyTypes :: "string set"
  b_array :: bool

text \<open>What the compiler throws.\<close>

datatype error =
    TypeError
  | ElementDefinitionNotFound string string
  | UnhandledFunction string
  | BadRequest string

text \<open>
  The structural schema lookup \<open>getElementDefinition(typeName, propertyName)\<close> and the
  atoms' \<open>toString\<close> are not among the sources: the compiler takes them as parameters.
\<close>

type_synonym schema = "string \<Rightarrow> string \<Rightarrow> InternalSchemaElement option"

type_synonym render = "Atom \<Rightarrow> string"

subsection \<open>Splitting and flattening the expression\<close>

fun buildExpressionsForResourceType :: "render \<Rightarrow> string \<Rightarrow> Atom \<Rightarrow> Atom list \<Rightarrow> Atom list" where
  "buildExpressionsForResourceType ts resourceType (UnionAtom l r) result =
     buildExpressionsForResourceType ts resourceType r
       (buildExpressionsForResourceType ts resourceType l result)"
| "buildExpressionsForResourceType ts resourceType atom result =
     (if startsWith (ts atom) (resourceType @ ''.'') then result @ [atom] else result)"

definition getExpressionsForResourceType :: "render \<Rightarrow> string \<Rightarrow> Atom \<Rightarrow> Atom list" where
  "getExpressionsForResourceType ts resourceType expression =
     buildExpressionsForResourceType ts resourceType expression []"

fun flattenAtom :: "Atom \<Rightarrow> Atom list" where
  "flattenAtom (AsAtom l r) = flattenAtom l @ [AsAtom l r]"
| "flattenAtom (IndexerAtom l e) = flattenAtom l @ [IndexerAtom l e]"
| "flattenAtom (BooleanInfixOperatorAtom opr l r) = [BooleanInfixOperatorAtom opr l r]"
| "flattenAtom (IsAtom l r) = [IsAtom l r]"
| "flattenAtom (DotAtom l r) = flattenAtom l @ flattenAtom r"
| "flattenAtom (FunctionAtom name args) =
     (if name = ''where'' \<and> \<not> (case args of [] \<Rightarrow> False | a # _ \<Rightarrow> isIsAtom a) then []
      else if name = ''last'' then []
      else [FunctionAtom name args])"
| "flattenAtom atom = [atom]"

subsection \<open>Walking the schema\<close>

definition isBackboneElement :: "string \<Rightarrow> bool" where
  "isBackboneElement propertyType =
     (propertyType = ''Element'' \<or> propertyType = ''BackboneElement'')"

definition addPropertyType :: "string \<Rightarrow> SearchParameterDetailsBuilder \<Rightarrow> SearchParameterDetailsBuilder" where
  "addPropertyType t b = b\<lparr>b_propertyTypes := insert t (b_propertyTypes b)\<rparr>"

text \<open>
  \<open>handleFunctionAtom\<close>: \<open>args[0].toString()\<close> on an empty argument list is a TypeError.
\<close>

definition handleFunctionAtom ::
  "render \<Rightarrow> SearchParameterDetailsBuilder \<Rightarrow> string \<Rightarrow> Atom list \<Rightarrow> error + SearchParameterDetailsBuilder" where
  "handleFunctionAtom ts builder name args =
     (if name = ''as'' \<or> name = ''ofType'' then
        (case args of [] \<Rightarrow> Inl TypeError | a # _ \<Rightarrow> Inr (addPropertyType (ts a) builder))
      else if name = ''resolve'' then Inr (addPropertyType ''string'' builder)
      else (case args of
              IsAtom l r # _ \<Rightarrow>
                (if name = ''where'' then Inr (addPropertyType (ts r) builder)
                 else Inl (UnhandledFunction name))
            | _ \<Rightarrow> Inl (UnhandledFunction name)))"

text \<open>
  \<open>crawlSearchParameterDetails\<close> and its loop over the types of a middle element. Reading
  \<open>atoms[index]\<close> past the end gives \<open>undefined\<close>, whose \<open>toString()\<close> is a TypeError. An
  exception leaves the loop at once.
\<close>

function crawlSearchParameterDetails ::
    "render \<Rightarrow> schema \<Rightarrow> SearchParameterDetailsBuilder \<Rightarrow> Atom list \<Rightarrow> string \<Rightarrow> nat
       \<Rightarrow> error + SearchParameterDetailsBuilder"
  and crawlTypes ::
    "render \<Rightarrow> schema \<Rightarrow> SearchParameterDetailsBuilder \<Rightarrow> Atom list \<Rightarrow> InternalSchemaElement
       \<Rightarrow> string list \<Rightarrow> nat \<Rightarrow> error + SearchParameterDetailsBuilder"
where
  "crawlSearchParameterDetails ts sch details atoms baseType index =
     (if length atoms \<le> index then Inl TypeError
      else (case atoms ! index of
          AsAtom l r \<Rightarrow> Inr (addPropertyType (ts r) details)
        | FunctionAtom name args \<Rightarrow> handleFunctionAtom ts details name args
        | currAtom \<Rightarrow>
           (case sch baseType (ts currAtom) of
              None \<Rightarrow> Inl (ElementDefinitionNotFound baseType (ts currAtom))
            | Some elementDefinition \<Rightarrow>
               (let hasArrayIndex = (index + 1 < length atoms \<and> isIndexerAtom (atoms ! (index + 1)));
                    nextIndex = (if hasArrayIndex then index + 2 else index + 1);
                    details1 = (if el_isArray elementDefinition \<and> \<not> hasArrayIndex
                                then details\<lparr>b_array := True\<rparr> else details)
                in if length atoms \<le> nextIndex then
                     Inr (details1
                       \<lparr>b_elementDefinitions := b_elementDefinitions details1 @ [elementDefinition],
                        b_propertyTypes := b_propertyTypes details1 \<union> set (el_type elementDefinition)\<rparr>)
                   else crawlTypes ts sch details1 atoms elementDefinition
                          (el_type elementDefinition) nextIndex))))"
| "crawlTypes ts sch details atoms elementDefinition [] nextIndex = Inr details"
| "crawlTypes ts sch details atoms elementDefinition (t # rest) nextIndex =
     (let propertyType = (if isBackboneElement t then hd (el_type elementDefinition) else t)
      in (case crawlSearchParameterDetails ts sch details atoms propertyType nextIndex of
            Inl e \<Rightarrow> Inl e
          | Inr details' \<Rightarrow> crawlTypes ts sch details' atoms elementDefinition rest nextIndex))"
  by pat_completeness auto
termination
  by (relation "inv_image (less_than <*lex*> less_than)
        (\<lambda>x. case x of
           Inl (ts, sch, details, atoms, baseType, index) \<Rightarrow> (2 * (length atoms - index), 0)
         | Inr (ts, sch, details, atoms, elementDefinition, types, nextIndex) \<Rightarrow>
             (2 * (length atoms - nextIndex) + 1, length types))")
     (auto split: if_splits)

subsection \<open>Compiling a search parameter\<close>

text \<open>
  Modelled from the spec: the constants of \<open>PropertyType\<close> (../types is not among the
  sources), which the spec names Identifier, CodeableConcept, Coding, ContactPoint, and
  the primitive types date, canonical and boolean.
\<close>

definition PropertyType_Identifier :: string where "PropertyType_Identifier = ''Identifier''"
definition PropertyType_CodeableConcept :: string where "PropertyType_CodeableConcept = ''CodeableConcept''"
definition PropertyType_Coding :: string where "PropertyType_Coding = ''Coding''"
definition PropertyType_ContactPoint :: string where "PropertyType_ContactPoint = ''ContactPoint''"
definition PropertyType_date :: string where "PropertyType_date = ''date''"
definition PropertyType_canonical :: string where "PropertyType_canonical = ''canonical''"
definition PropertyType_boolean :: string where "PropertyType_boolean = ''boolean''"

text \<open>The lazy \<open>flattenedExpression\<close>: the rendered atoms joined by dots.\<close>

definition flattenedExpression :: "render \<Rightarrow> Atom list \<Rightarrow> string" where
  "flattenedExpression ts atomArray = join ''.'' (map ts atomArray)"

text \<open>The body of the loop over the expressions of \<open>buildSearchParameterDetails\<close>.\<close>

definition buildExpression ::
  "render \<Rightarrow> schema \<Rightarrow> string \<Rightarrow> SearchParameterDetailsBuilder \<Rightarrow> Atom
     \<Rightarrow> error + SearchParameterDetailsBuilder" where
  "buildExpression ts sch resourceType builder expression =
     (let atomArray = flattenAtom expression;
          flattened = flattenedExpression ts atomArray;
          crawled =
            (if length atomArray = 1 \<and> isBooleanInfixOperatorAtom (hd atomArray) then
               Inr (addPropertyType ''boolean'' builder)
             else if endsWith flattened ''extension.value.code'' \<or>
                     endsWith flattened ''extension.value.coding.code'' then
               Inr (addPropertyType ''code'' (builder\<lparr>b_array := True\<rparr>))
             else crawlSearchParameterDetails ts sch builder atomArray resourceType 1)
      in (case crawled of
            Inl e \<Rightarrow> Inl e
          | Inr builder' \<Rightarrow>
              Inr (if endsWith flattened ''extension.valueDateTime''
                   then builder'\<lparr>b_array := False\<rparr> else builder')))"

fun buildExpressions ::
  "render \<Rightarrow> schema \<Rightarrow> string \<Rightarrow> SearchParameterDetailsBuilder \<Rightarrow> Atom list
     \<Rightarrow> error + SearchParameterDetailsBuilder" where
  "buildExpressions ts sch resourceType builder [] = Inr builder"
| "buildExpressions ts sch resourceType builder (expression # rest) =
     (case buildExpression ts sch resourceType builder expression of
        Inl e \<Rightarrow> Inl e
      | Inr builder' \<Rightarrow> buildExpressions ts sch resourceType builder' rest)"

definition nameParams :: "string list" where
  "nameParams = [''individual-given'', ''individual-family'', ''Patient-name'', ''Person-name'',
     ''Practitioner-name'', ''RelatedPerson-name'']"

definition telecomParams :: "string list" where
  "telecomParams = [''individual-telecom'', ''individual-email'', ''individual-phone'',
     ''OrganizationAffiliation-telecom'', ''OrganizationAffiliation-email'',
     ''OrganizationAffiliation-phone'']"

definition addressParams :: "string list" where
  "addressParams = [''individual-address'', ''InsurancePlan-address'', ''Location-address'',
     ''Organization-address'']"

text \<open>\<open>Array.prototype.includes\<close> of an id that may be undefined.\<close>

definition arrayIncludes :: "string list \<Rightarrow> string option \<Rightarrow> bool" where
  "arrayIncludes xs v = (case v of None \<Rightarrow> False | Some s \<Rightarrow> List.member xs s)"

text \<open>The two nested loops of \<open>isTokenParam\<close>, which return at the first match.\<close>

fun typesHaveToken :: "string list \<Rightarrow> bool" where
  "typesHaveToken [] = False"
| "typesHaveToken (code # rest) =
     (if code = PropertyType_Identifier \<or> code = PropertyType_CodeableConcept \<or>
         code = PropertyType_Coding \<or> code = PropertyType_ContactPoint
      then True else typesHaveToken rest)"

fun elementsHaveToken :: "InternalSchemaElement list \<Rightarrow> bool" where
  "elementsHaveToken [] = False"
| "elementsHaveToken (elementDefinition # rest) =
     (if typesHaveToken (el_type elementDefinition) then True else elementsHaveToken rest)"

definition isTokenParam :: "SearchParameter \<Rightarrow> SearchParameterDetailsBuilder \<Rightarrow> bool" where
  "isTokenParam searchParam builder =
     (if sp_type searchParam = ''token'' then
        (if endsWith (sp_code searchParam) '':identifier'' then True
         else elementsHaveToken (b_elementDefinitions builder))
      else False)"

definition isLookupTableParam :: "SearchParameter \<Rightarrow> SearchParameterDetailsBuilder \<Rightarrow> bool" where
  "isLookupTableParam searchParam builder =
     (if arrayIncludes nameParams (sp_id searchParam) then True
      else if arrayIncludes telecomParams (sp_id searchParam) then True
      else if arrayIncludes addressParams (sp_id searchParam) then True
      else if startsWith (sp_code searchParam) ''address-'' then True
      else False)"

definition convertCodeToColumnName :: "string \<Rightarrow> string" where
  "convertCodeToColumnName code =
     (case split CHR ''-'' code of [] \<Rightarrow> [] | w # ws \<Rightarrow> w @ concat (map capitalize ws))"

definition getSearchParameterType :: "SearchParameter \<Rightarrow> string set \<Rightarrow> SearchParameterType" where
  "getSearchParameterType searchParam propertyTypes =
     (if sp_type searchParam = ''date'' then
        (if card propertyTypes = 1 \<and> PropertyType_date \<in> propertyTypes then DATE else DATETIME)
      else if sp_type searchParam = ''number'' then NUMBER
      else if sp_type searchParam = ''quantity'' then QUANTITY
      else if sp_type searchParam = ''reference'' then
        (if PropertyType_canonical \<in> propertyTypes then CANONICAL else REFERENCE)
      else if sp_type searchParam = ''token'' then
        (if card propertyTypes = 1 \<and> PropertyType_boolean \<in> propertyTypes then BOOLEAN else TEXT)
      else TEXT)"

text \<open>The builder that the loop over the retained clauses leaves.\<close>

definition buildBuilder ::
  "render \<Rightarrow> schema \<Rightarrow> string \<Rightarrow> SearchParameter \<Rightarrow> error + SearchParameterDetailsBuilder" where
  "buildBuilder ts sch resourceType searchParam =
     buildExpressions ts sch resourceType
       \<lparr>b_elementDefinitions = [], b_propertyTypes = {}, b_array = False\<rparr>
       (getExpressionsForResourceType ts resourceType (sp_expression searchParam))"

text \<open>The plan that \<open>buildSearchParameterDetails\<close> computes, before it is stored.\<close>

definition buildPlan ::
  "render \<Rightarrow> schema \<Rightarrow> string \<Rightarrow> SearchParameter \<Rightarrow> error + SearchParameterDetails" where
  "buildPlan ts sch resourceType searchParam =
     (case buildBuilder ts sch resourceType searchParam of
        Inl e \<Rightarrow> Inl e
      | Inr builder \<Rightarrow>
          Inr \<lparr>columnName = convertCodeToColumnName (sp_code searchParam),
               detailsType = getSearchParameterType searchParam (b_propertyTypes builder),
               elementDefinitions = b_elementDefinitions builder,
               array = b_array builder,
               implementation =
                 (if isLookupTableParam searchParam builder then ImplLookupTable
                  else if isTokenParam searchParam builder then ImplTokenColumns
                  else ImplColumn)\<rparr>)"

subsection \<open>The compiled-plan cache\<close>

text \<open>
  \<open>globalSchema.types\<close>: for each resource type a type schema, whose \<open>searchParamsDetails\<close>
  (when it is there) maps a parameter code to its plan.
\<close>

record TypeSchema =
  searchParamsDetails :: "(string \<rightharpoonup> SearchParameterDetails) option"

type_synonym globalSchema = "string \<rightharpoonup> TypeSchema"

definition cachedDetails :: "globalSchema \<Rightarrow> string \<Rightarrow> string \<Rightarrow> SearchParameterDetails option" where
  "cachedDetails types resourceType code =
     (case types resourceType of
        None \<Rightarrow> None
      | Some typeSchema \<Rightarrow>
          (case searchParamsDetails typeSchema of None \<Rightarrow> None | Some m \<Rightarrow> m code))"

definition setSearchParameterDetails ::
  "globalSchema \<Rightarrow> string \<Rightarrow> string \<Rightarrow> SearchParameterDetails \<Rightarrow> globalSchema" where
  "setSearchParameterDetails types resourceType code details =
     (let typeSchema = (case types resourceType of
                          None \<Rightarrow> \<lparr>searchParamsDetails = None\<rparr> | Some t \<Rightarrow> t);
          m = (case searchParamsDetails typeSchema of None \<Rightarrow> Map.empty | Some m \<Rightarrow> m)
      in types(resourceType \<mapsto> typeSchema\<lparr>searchParamsDetails := Some (m(code \<mapsto> details))\<rparr>))"

definition buildSearchParameterDetails ::
  "render \<Rightarrow> schema \<Rightarrow> globalSchema \<Rightarrow> string \<Rightarrow> SearchParameter
     \<Rightarrow> (error + SearchParameterDetails) \<times> globalSchema" where
  "buildSearchParameterDetails ts sch types resourceType searchParam =
     (case buildPlan ts sch resourceType searchParam of
        Inl e \<Rightarrow> (Inl e, types)
      | Inr result \<Rightarrow>
          (Inr result, setSearchParameterDetails types resourceType (sp_code searchParam) result))"

definition getSearchParameterDetails ::
  "render \<Rightarrow> schema \<Rightarrow> globalSchema \<Rightarrow> string \<Rightarrow> SearchParameter
     \<Rightarrow> (error + SearchParameterDetails) \<times> globalSchema" where
  "getSearchParameterDetails ts sch types resourceType searchParam =
     (case cachedDetails types resourceType (sp_code searchParam) of
        Some result \<Rightarrow> (Inr result, types)
      | None \<Rightarrow> buildSearchParameterDetails ts sch types resourceType searchParam)"

section \<open>Token extraction and token conditions (server, lookups/token.ts)\<close>

subsection \<open>Data model\<close>

record LookupToken =
  t_code :: string
  t_system :: "string option"
  t_value :: "string option"

definition USE_TOKEN_TABLE :: bool where "USE_TOKEN_TABLE = False"
definition DELIM :: string where "DELIM = [CHR 0x01]"
definition NULL_SYSTEM :: string where "NULL_SYSTEM = [CHR 0x02]"
definition ARRAY_DELIM :: string where "ARRAY_DELIM = [CHR 0x03]"

text \<open>
  The search operators (\<open>Operator\<close> of the core package, which is not among the sources):
  the ones that the token code names, and \<open>Op_Other\<close> for every other operator.
\<close>

datatype FhirOperator =
    Op_EQUALS | Op_NOT_EQUALS | Op_NOT | Op_TEXT | Op_CONTAINS | Op_MISSING | Op_PRESENT
  | Op_IN | Op_NOT_IN | Op_IDENTIFIER | Op_Other string

record Filter =
  f_code :: string
  f_operator :: FhirOperator
  f_value :: string

record SortRule =
  sr_code :: string
  sr_descending :: bool

text \<open>
  The query expressions. The classes of ../sql are not among the sources, so an expression
  is the term of the constructor and builder calls that the code makes: \<open>Q_column q c\<close> is
  \<open>q.column(c)\<close>, \<open>Q_whereExpr q e\<close> is \<open>q.whereExpr(e)\<close>, and so on. A column is
  \<open>new Column(tableName, columnName, raw, alias)\<close>.
\<close>

datatype Column = Column "string option" string bool "string option"

datatype Expression =
    TypedCondition Column string Parameter "string option"
  | Conjunction "Expression list"
  | Disjunction "Expression list"
  | Negation Expression
  | SqlFunction string "SelectQuery list"
and Parameter =
    PUndefined | PNull | PString string | PStrings "string list" | PColumn Column
  | PQuery SelectQuery
and SelectQuery =
    NewSelectQuery string "SelectQuery option"
  | Q_column SelectQuery "string + Column"
  | Q_whereExpr SelectQuery Expression
  | Q_where SelectQuery string string Parameter
  | Q_limit SelectQuery nat
  | Q_distinctOn SelectQuery string
  | Q_join SelectQuery string SelectQuery string Expression
  | Q_orderBy SelectQuery Column bool

text \<open>
  The values that the typed-value evaluator hands to the extractor, as a tagged union of
  the shapes that \<open>buildTokens\<close> dispatches on; \<open>OtherValue\<close> carries the type tag and
  \<open>value?.toString()\<close>.
\<close>

record Identifier =
  identifier_system :: "string option"
  identifier_value :: "string option"

record Coding =
  coding_system :: "string option"
  coding_code :: "string option"
  coding_display :: "string option"

record CodeableConcept =
  cc_text :: "string option"
  cc_coding :: "Coding list option"

record ContactPoint =
  cp_system :: "string option"
  cp_value :: "string option"

datatype TypedValue =
    IdentifierValue "Identifier option"
  | CodeableConceptValue "CodeableConcept option"
  | CodingValue "Coding option"
  | ContactPointValue "ContactPoint option"
  | OtherValue string "string option"

record Resource =
  res_resourceType :: string

text \<open>JavaScript's truthiness of an optional string: present and not empty.\<close>

definition truthy :: "string option \<Rightarrow> bool" where
  "truthy s = (case s of None \<Rightarrow> False | Some v \<Rightarrow> v \<noteq> [])"

text \<open>\<open>String.prototype.trim\<close>, on the ASCII white space.\<close>

definition isWhiteSpace :: "char \<Rightarrow> bool" where
  "isWhiteSpace c = (let n = (of_char c :: nat) in n = 32 \<or> (9 \<le> n \<and> n \<le> 13))"

definition trim :: "string \<Rightarrow> string" where
  "trim s = rev (dropWhile isWhiteSpace (rev (dropWhile isWhiteSpace s)))"

text \<open>
  Modelled from the spec: \<open>splitN\<close> of the core package, which is not among the sources.
  The spec: within a term, split on the first \<open>|\<close> to get the optional system and value
  parts. \<open>splitN str delim n\<close> cuts at most \<open>n - 1\<close> times, at the first occurrences.
\<close>

fun splitN :: "string \<Rightarrow> char \<Rightarrow> nat \<Rightarrow> string list" where
  "splitN str delim 0 = [str]"
| "splitN str delim (Suc 0) = [str]"
| "splitN str delim (Suc (Suc n)) =
     (if delim \<in> set str
      then takeWhile (\<lambda>c. c \<noteq> delim) str #
           splitN (tl (dropWhile (\<lambda>c. c \<noteq> delim) str)) delim (Suc n)
      else [str])"

subsection \<open>The index type of a parameter\<close>

datatype TokenIndexType = CASE_SENSITIVE | CASE_INSENSITIVE

text \<open>The nested loops of \<open>getTokenIndexType\<close>, which return at the first match.\<close>

fun elementsHaveContactPoint :: "InternalSchemaElement list \<Rightarrow> bool" where
  "elementsHaveContactPoint [] = False"
| "elementsHaveContactPoint (elementDefinition # rest) =
     (if List.member (el_type elementDefinition) PropertyType_ContactPoint then True
      else elementsHaveContactPoint rest)"

fun typesHaveCaseSensitive :: "string list \<Rightarrow> bool" where
  "typesHaveCaseSensitive [] = False"
| "typesHaveCaseSensitive (code # rest) =
     (if code = PropertyType_Identifier \<or> code = PropertyType_CodeableConcept \<or>
         code = PropertyType_Coding
      then True else typesHaveCaseSensitive rest)"

fun elementsHaveCaseSensitive :: "InternalSchemaElement list \<Rightarrow> bool" where
  "elementsHaveCaseSensitive [] = False"
| "elementsHaveCaseSensitive (elementDefinition # rest) =
     (if typesHaveCaseSensitive (el_type elementDefinition) then True
      else elementsHaveCaseSensitive rest)"

definition getTokenIndexType ::
  "render \<Rightarrow> schema \<Rightarrow> globalSchema \<Rightarrow> SearchParameter \<Rightarrow> string
     \<Rightarrow> (error + TokenIndexType option) \<times> globalSchema" where
  "getTokenIndexType ts sch types searchParam resourceType =
     (if sp_type searchParam \<noteq> ''token'' then (Inr None, types)
      else if endsWith (sp_code searchParam) '':identifier'' then (Inr (Some CASE_SENSITIVE), types)
      else (case getSearchParameterDetails ts sch types resourceType searchParam of
              (Inl e, types') \<Rightarrow> (Inl e, types')
            | (Inr details, types') \<Rightarrow>
                (if elementDefinitions details = [] then (Inr None, types')
                 else if elementsHaveContactPoint (elementDefinitions details)
                   then (Inr (Some CASE_INSENSITIVE), types')
                 else if elementsHaveCaseSensitive (elementDefinitions details)
                   then (Inr (Some CASE_SENSITIVE), types')
                 else (Inr None, types'))))"

definition isCaseSensitiveSearchParameter ::
  "render \<Rightarrow> schema \<Rightarrow> globalSchema \<Rightarrow> SearchParameter \<Rightarrow> string
     \<Rightarrow> (error + bool) \<times> globalSchema" where
  "isCaseSensitiveSearchParameter ts sch types param resourceType =
     (case getTokenIndexType ts sch types param resourceType of
        (Inl e, types') \<Rightarrow> (Inl e, types')
      | (Inr indexType, types') \<Rightarrow> (Inr (indexType = Some CASE_SENSITIVE), types'))"

text \<open>\<open>TokenTable.isIndexed\<close>: \<open>&&\<close> does not evaluate its right operand after false.\<close>

definition isIndexed ::
  "render \<Rightarrow> schema \<Rightarrow> globalSchema \<Rightarrow> SearchParameter \<Rightarrow> string
     \<Rightarrow> (error + bool) \<times> globalSchema" where
  "isIndexed ts sch types searchParam resourceType =
     (if USE_TOKEN_TABLE then
        (case getTokenIndexType ts sch types searchParam resourceType of
           (Inl e, types') \<Rightarrow> (Inl e, types')
         | (Inr indexType, types') \<Rightarrow> (Inr (indexType \<noteq> None), types'))
      else (Inr False, types))"

subsection \<open>Extracting tokens\<close>

definition buildSimpleToken ::
  "LookupToken list \<Rightarrow> SearchParameter \<Rightarrow> bool \<Rightarrow> string option \<Rightarrow> string option
     \<Rightarrow> LookupToken list" where
  "buildSimpleToken result searchParam caseSensitive system val =
     (if (truthy system \<or> truthy val) \<and>
         \<not> list_ex (\<lambda>token. t_code token = sp_code searchParam \<and> t_system token = system \<and>
                             t_value token = val) result
      then result @ [\<lparr>t_code = sp_code searchParam, t_system = system,
                      t_value = (if truthy val \<and> \<not> caseSensitive
                                 then map_option toLowerCase val else val)\<rparr>]
      else result)"

definition buildIdentifierToken ::
  "LookupToken list \<Rightarrow> SearchParameter \<Rightarrow> bool \<Rightarrow> Identifier option \<Rightarrow> LookupToken list" where
  "buildIdentifierToken result searchParam caseSensitive identifier =
     buildSimpleToken result searchParam caseSensitive
       (case identifier of None \<Rightarrow> None | Some i \<Rightarrow> identifier_system i)
       (case identifier of None \<Rightarrow> None | Some i \<Rightarrow> identifier_value i)"

definition buildCodingToken ::
  "LookupToken list \<Rightarrow> SearchParameter \<Rightarrow> bool \<Rightarrow> Coding option \<Rightarrow> LookupToken list" where
  "buildCodingToken result searchParam caseSensitive coding =
     (case coding of
        None \<Rightarrow> result
      | Some c \<Rightarrow>
          (let result1 = (if truthy (coding_display c)
                          then buildSimpleToken result searchParam caseSensitive (Some ''text'')
                                 (coding_display c)
                          else result)
           in buildSimpleToken result1 searchParam caseSensitive (coding_system c) (coding_code c)))"

fun buildCodingTokens ::
  "LookupToken list \<Rightarrow> SearchParameter \<Rightarrow> bool \<Rightarrow> Coding list \<Rightarrow> LookupToken list" where
  "buildCodingTokens result searchParam caseSensitive [] = result"
| "buildCodingTokens result searchParam caseSensitive (coding # rest) =
     buildCodingTokens (buildCodingToken result searchParam caseSensitive (Some coding))
       searchParam caseSensitive rest"

definition buildCodeableConceptToken ::
  "LookupToken list \<Rightarrow> SearchParameter \<Rightarrow> bool \<Rightarrow> CodeableConcept option \<Rightarrow> LookupToken list" where
  "buildCodeableConceptToken result searchParam caseSensitive codeableConcept =
     (case codeableConcept of
        None \<Rightarrow> result
      | Some cc \<Rightarrow>
          (let result1 = (if truthy (cc_text cc)
                          then buildSimpleToken result searchParam caseSensitive (Some ''text'')
                                 (cc_text cc)
                          else result)
           in (case cc_coding cc of
                 None \<Rightarrow> result1
               | Some codings \<Rightarrow> buildCodingTokens result1 searchParam caseSensitive codings)))"

definition buildContactPointToken ::
  "LookupToken list \<Rightarrow> SearchParameter \<Rightarrow> bool \<Rightarrow> ContactPoint option \<Rightarrow> LookupToken list" where
  "buildContactPointToken result searchParam caseSensitive contactPoint =
     buildSimpleToken result searchParam caseSensitive
       (case contactPoint of None \<Rightarrow> None | Some c \<Rightarrow> cp_system c)
       (case contactPoint of
          None \<Rightarrow> None
        | Some c \<Rightarrow> (if truthy (cp_value c) then map_option toLowerCase (cp_value c)
                     else cp_value c))"

definition buildTokens ::
  "render \<Rightarrow> schema \<Rightarrow> globalSchema \<Rightarrow> LookupToken list \<Rightarrow> SearchParameter \<Rightarrow> Resource
     \<Rightarrow> TypedValue \<Rightarrow> (error + LookupToken list) \<times> globalSchema" where
  "buildTokens ts sch types result searchParam resource typedValue =
     (case isCaseSensitiveSearchParameter ts sch types searchParam (res_resourceType resource) of
        (Inl e, types') \<Rightarrow> (Inl e, types')
      | (Inr caseSensitive, types') \<Rightarrow>
          (Inr (case typedValue of
               IdentifierValue v \<Rightarrow> buildIdentifierToken result searchParam caseSensitive v
             | CodeableConceptValue v \<Rightarrow> buildCodeableConceptToken result searchParam caseSensitive v
             | CodingValue v \<Rightarrow> buildCodingToken result searchParam caseSensitive v
             | ContactPointValue v \<Rightarrow> buildContactPointToken result searchParam caseSensitive v
             | OtherValue tag v \<Rightarrow> buildSimpleToken result searchParam caseSensitive None v),
           types'))"

text \<open>The loop of \<open>buildTokensForSearchParameter\<close> over the typed values.\<close>

fun buildTokensForValues ::
  "render \<Rightarrow> schema \<Rightarrow> globalSchema \<Rightarrow> LookupToken list \<Rightarrow> SearchParameter \<Rightarrow> Resource
     \<Rightarrow> TypedValue list \<Rightarrow> (error + LookupToken list) \<times> globalSchema" where
  "buildTokensForValues ts sch types result searchParam resource [] = (Inr result, types)"
| "buildTokensForValues ts sch types result searchParam resource (typedValue # rest) =
     (case buildTokens ts sch types result searchParam resource typedValue of
        (Inl e, types') \<Rightarrow> (Inl e, types')
      | (Inr result', types') \<Rightarrow>
          buildTokensForValues ts sch types' result' searchParam resource rest)"

text \<open>
  The typed-value evaluator \<open>evalFhirPathTyped\<close>, the table \<open>getSearchParameters\<close> and
  \<open>deriveIdentifierSearchParameter\<close> are not among the sources: the extractor takes them as
  parameters.
\<close>

type_synonym evaluator = "Atom \<Rightarrow> Resource \<Rightarrow> TypedValue list"

definition buildTokensForSearchParameter ::
  "render \<Rightarrow> schema \<Rightarrow> evaluator \<Rightarrow> globalSchema \<Rightarrow> LookupToken list \<Rightarrow> Resource
     \<Rightarrow> SearchParameter \<Rightarrow> (error + LookupToken list) \<times> globalSchema" where
  "buildTokensForSearchParameter ts sch evalFhirPathTyped types result resource searchParam =
     buildTokensForValues ts sch types result searchParam resource
       (evalFhirPathTyped (sp_expression searchParam) resource)"

text \<open>The loop of \<open>getTokens\<close> over the search parameters of the resource type.\<close>

fun getTokensLoop ::
  "render \<Rightarrow> schema \<Rightarrow> evaluator \<Rightarrow> (SearchParameter \<Rightarrow> SearchParameter) \<Rightarrow> globalSchema
     \<Rightarrow> LookupToken list \<Rightarrow> Resource \<Rightarrow> SearchParameter list
     \<Rightarrow> (error + LookupToken list) \<times> globalSchema" where
  "getTokensLoop ts sch ev derive types result resource [] = (Inr result, types)"
| "getTokensLoop ts sch ev derive types result resource (searchParam # rest) =
     (case getTokenIndexType ts sch types searchParam (res_resourceType resource) of
        (Inl e, types1) \<Rightarrow> (Inl e, types1)
      | (Inr indexType, types1) \<Rightarrow>
          (case (if indexType \<noteq> None
                 then buildTokensForSearchParameter ts sch ev types1 result resource searchParam
                 else (Inr result, types1)) of
             (Inl e, types2) \<Rightarrow> (Inl e, types2)
           | (Inr result1, types2) \<Rightarrow>
               (case (if sp_type searchParam = ''reference''
                      then buildTokensForSearchParameter ts sch ev types2 result1 resource
                             (derive searchParam)
                      else (Inr result1, types2)) of
                  (Inl e, types3) \<Rightarrow> (Inl e, types3)
                | (Inr result2, types3) \<Rightarrow>
                    getTokensLoop ts sch ev derive types3 result2 resource rest)))"

definition getTokens ::
  "render \<Rightarrow> schema \<Rightarrow> evaluator \<Rightarrow> (SearchParameter \<Rightarrow> SearchParameter)
     \<Rightarrow> (string \<Rightarrow> SearchParameter list option) \<Rightarrow> globalSchema \<Rightarrow> Resource
     \<Rightarrow> (error + LookupToken list) \<times> globalSchema" where
  "getTokens ts sch ev derive getSearchParameters types resource =
     (case getSearchParameters (res_resourceType resource) of
        None \<Rightarrow> (Inr [], types)
      | Some searchParams \<Rightarrow> getTokensLoop ts sch ev derive types [] resource searchParams)"

subsection \<open>Building the query condition\<close>

definition shouldCompareTokenValue :: "FhirOperator \<Rightarrow> bool" where
  "shouldCompareTokenValue operator =
     (case operator of
        Op_MISSING \<Rightarrow> False
      | Op_PRESENT \<Rightarrow> False
      | Op_IN \<Rightarrow> False
      | Op_NOT_IN \<Rightarrow> False
      | Op_IDENTIFIER \<Rightarrow> False
      | _ \<Rightarrow> True)"

definition missingMessage :: string where
  "missingMessage = ''Search filter :missing must have a value of true or false''"

text \<open>
  \<open>shouldTokenRowExist\<close>; the \<open>OperationOutcomeError(badRequest(...))\<close> that it throws is
  the error \<open>BadRequest\<close> (the message is written here without its quotation marks).
\<close>

definition shouldTokenRowExist :: "Filter \<Rightarrow> error + bool" where
  "shouldTokenRowExist filter' =
     (if shouldCompareTokenValue (f_operator filter') then
        (if f_operator filter' = Op_NOT \<or> f_operator filter' = Op_NOT_EQUALS then Inr False
         else Inr True)
      else if f_operator filter' = Op_MISSING then
        (if toLowerCase (f_value filter') = ''true'' then Inr False
         else if toLowerCase (f_value filter') = ''false'' then Inr True
         else Inl (BadRequest missingMessage))
      else if f_operator filter' = Op_PRESENT then
        (if toLowerCase (f_value filter') = ''true'' then Inr True
         else if toLowerCase (f_value filter') = ''false'' then Inr False
         else Inl (BadRequest missingMessage))
      else Inr True)"

definition getTableName :: "string \<Rightarrow> string" where
  "getTableName resourceType = resourceType @ ''_Token''"

text \<open>
  \<open>buildValueCondition\<close>. \<open>escapeLikeString\<close> of ../sql is not among the sources and is a
  parameter. The warning that the lookup-table branch logs is not modelled.
\<close>

definition buildValueCondition ::
  "(string \<Rightarrow> string) \<Rightarrow> SearchParameterDetails \<Rightarrow> string \<Rightarrow> Filter \<Rightarrow> bool \<Rightarrow> string option
     \<Rightarrow> string \<Rightarrow> Expression" where
  "buildValueCondition escapeLikeString details tableName filter' caseSensitive system val0 =
     (let val = trim val0 in
      if USE_TOKEN_TABLE then
        (let column = Column (Some tableName) ''value'' False None in
         if f_operator filter' = Op_TEXT then
           Conjunction
             [TypedCondition (Column (Some tableName) ''system'' False None) ''='' (PString ''text'') None,
              TypedCondition column ''TSVECTOR_SIMPLE'' (PString (val @ '':*'')) None]
         else if f_operator filter' = Op_CONTAINS then
           TypedCondition column ''LIKE'' (PString (escapeLikeString val @ ''%'')) None
         else if caseSensitive then TypedCondition column ''='' (PString val) None
         else TypedCondition column ''IN'' (PStrings [val, toLowerCase val]) None)
      else
        (let system1 = (if truthy system then the system else []);
             valuePart = (if val \<noteq> [] then DELIM @ val else []);
             tokenCol = Column (Some tableName) (columnName details) False None
         in
         if f_operator filter' = Op_TEXT then
           Conjunction
             [TypedCondition tokenCol ''ARRAY_CONTAINS'' (PString ''text'') (Some ''text[]''),
              TypedCondition tokenCol ''ARRAY_IREGEX''
                (PString (''text'' @ DELIM @ ''[^'' @ ARRAY_DELIM @ '']*'' @ val)) (Some ''text[]'')]
         else if f_operator filter' = Op_CONTAINS then
           Conjunction
             [TypedCondition tokenCol ''ARRAY_ILIKE''
                (PString (''%'' @ ARRAY_DELIM @ DELIM @ ''%'' @ escapeLikeString val @ ''%''))
                (Some ''text[]''),
              TypedCondition tokenCol ''ARRAY_IREGEX''
                (PString (ARRAY_DELIM @ DELIM @ ''[^'' @ ARRAY_DELIM @ '']*'' @ val)) (Some ''text[]'')]
         else if caseSensitive then
           TypedCondition tokenCol ''ARRAY_CONTAINS'' (PString (system1 @ valuePart)) (Some ''text[]'')
         else
           TypedCondition tokenCol ''ARRAY_IREGEX'' (PString (system1 @ DELIM @ val @ ARRAY_DELIM))
             (Some ''text[]'')))"

definition buildInValueSetCondition :: "string \<Rightarrow> string \<Rightarrow> Expression" where
  "buildInValueSetCondition tableName val =
     (if USE_TOKEN_TABLE then
        TypedCondition (Column (Some tableName) ''system'' False None) ''IN_SUBQUERY''
          (PQuery (Q_limit (Q_where (Q_column (NewSelectQuery ''ValueSet'' None) (Inl ''reference''))
                              ''url'' ''='' (PString val)) 1))
          (Some ''TEXT[]'')
      else
        (let inner = Q_limit (Q_where (Q_column (NewSelectQuery ''ValueSet'' None) (Inl ''reference''))
                                ''url'' ''='' (PString val)) 1;
             unnest = Q_column (NewSelectQuery ''unnested'' (Some inner))
                        (Inr (Column (Some ''ValueSet'') ''unnest(reference)'' True (Some ''reference'')));
             code = ''code'';
             arrayAgg = Q_column (NewSelectQuery ''array_agg'' (Some unnest))
                          (Inr (Column (Some ''unnested'')
                                  (''array_agg('' @ [CHR 0x27] @ code @ DELIM @ [CHR 0x27] @
                                   '' || reference)'')
                                  True (Some ''code_and_system'')))
         in TypedCondition (Column (Some tableName) ''token'' False None) ''ARRAY_CONTAINS_SUBQUERY''
              (PQuery arrayAgg) (Some ''TEXT[]'')))"

definition buildWhereCondition ::
  "(string \<Rightarrow> string) \<Rightarrow> SearchParameterDetails \<Rightarrow> string \<Rightarrow> Filter \<Rightarrow> bool \<Rightarrow> string
     \<Rightarrow> Expression option" where
  "buildWhereCondition escapeLikeString details tableName filter' caseSensitive query =
     (let parts = splitN query CHR ''|'' 2 in
      if length parts = 2 then
        (let system = parts ! 0; val = parts ! 1 in
         if USE_TOKEN_TABLE then
           (let systemCondition =
                  TypedCondition (Column (Some tableName) ''system'' False None) ''=''
                    (if system \<noteq> [] then PString system else PNull) None
            in if val \<noteq> [] then
                 Some (Conjunction
                   [systemCondition,
                    buildValueCondition escapeLikeString details tableName filter' caseSensitive
                      (Some system) val])
               else Some systemCondition)
         else
           Some (buildValueCondition escapeLikeString details tableName filter' caseSensitive
                   (Some (if system \<noteq> [] then system else NULL_SYSTEM)) val))
      else if f_operator filter' = Op_IN then Some (buildInValueSetCondition tableName query)
      else if shouldCompareTokenValue (f_operator filter') then
        Some (buildValueCondition escapeLikeString details tableName filter' caseSensitive None query)
      else None)"

text \<open>
  \<open>buildWhereExpression\<close>: the loop keeps the conditions that are defined, in the order of
  the options. \<open>splitSearchOnComma\<close> of the core package is not among the sources and is a
  parameter.
\<close>

definition buildWhereExpression ::
  "(string \<Rightarrow> string list) \<Rightarrow> (string \<Rightarrow> string) \<Rightarrow> SearchParameterDetails \<Rightarrow> string \<Rightarrow> bool
     \<Rightarrow> Filter \<Rightarrow> Expression option" where
  "buildWhereExpression splitSearchOnComma escapeLikeString details tableName caseSensitive filter' =
     (let subExpressions =
            List.map_filter
              (buildWhereCondition escapeLikeString details tableName filter' caseSensitive)
              (splitSearchOnComma (f_value filter'))
      in if subExpressions \<noteq> [] then Some (Disjunction subExpressions) else None)"

definition buildWhere ::
  "render \<Rightarrow> schema \<Rightarrow> (string \<Rightarrow> string list) \<Rightarrow> (string \<Rightarrow> string) \<Rightarrow> globalSchema \<Rightarrow> string
     \<Rightarrow> string \<Rightarrow> SearchParameter \<Rightarrow> Filter \<Rightarrow> (error + Expression) \<times> globalSchema" where
  "buildWhere ts sch splitSearchOnComma escapeLikeString types resourceType table param filter' =
     (case isCaseSensitiveSearchParameter ts sch types param resourceType of
        (Inl e, types1) \<Rightarrow> (Inl e, types1)
      | (Inr caseSensitive, types1) \<Rightarrow>
          (case getSearchParameterDetails ts sch types1 resourceType param of
             (Inl e, types2) \<Rightarrow> (Inl e, types2)
           | (Inr details, types2) \<Rightarrow>
               (if USE_TOKEN_TABLE then
                  (let lookupTableName = getTableName resourceType;
                       conjunction =
                         [TypedCondition (Column (Some table) ''id'' False None) ''=''
                            (PColumn (Column (Some lookupTableName) ''resourceId'' False None)) None,
                          TypedCondition (Column (Some lookupTableName) ''code'' False None) ''=''
                            (PString (f_code filter')) None]
                         @ (case buildWhereExpression splitSearchOnComma escapeLikeString details
                                   lookupTableName caseSensitive filter' of
                              None \<Rightarrow> [] | Some whereExpression \<Rightarrow> [whereExpression]);
                       exists = SqlFunction ''EXISTS''
                         [Q_whereExpr (Q_column (NewSelectQuery lookupTableName None) (Inl ''resourceId''))
                            (Conjunction conjunction)]
                   in (case shouldTokenRowExist filter' of
                         Inl e \<Rightarrow> Inl e
                       | Inr rowExists \<Rightarrow> Inr (if rowExists then exists else Negation exists)))
                else
                  (let whereExpression =
                         (case buildWhereExpression splitSearchOnComma escapeLikeString details table
                                 caseSensitive filter' of
                            Some e \<Rightarrow> e
                          | None \<Rightarrow>
                              TypedCondition (Column (Some table) (columnName details) False None)
                                ''ARRAY_EMPTY'' PUndefined None)
                   in (case shouldTokenRowExist filter' of
                         Inl e \<Rightarrow> Inl e
                       | Inr rowExists \<Rightarrow>
                           Inr (if rowExists then whereExpression else Negation whereExpression))),
                types2)))"

text \<open>
  \<open>TokenTable.addOrderBy\<close>, which returns the select query that it has changed.
  \<open>escapeLiteral\<close> of pg and \<open>SelectQuery.getNextJoinAlias\<close> are parameters.
\<close>

definition addOrderBy ::
  "(string \<Rightarrow> string) \<Rightarrow> (SelectQuery \<Rightarrow> string \<times> SelectQuery) \<Rightarrow> SelectQuery \<Rightarrow> string
     \<Rightarrow> SortRule \<Rightarrow> SelectQuery" where
  "addOrderBy escapeLiteral getNextJoinAlias selectQuery resourceType sortRule =
     (if USE_TOKEN_TABLE then
        (let lookupTableName = getTableName resourceType;
             (joinName, selectQuery1) = getNextJoinAlias selectQuery;
             joinOnExpression =
               TypedCondition (Column (Some resourceType) ''id'' False None) ''=''
                 (PColumn (Column (Some joinName) ''resourceId'' False None)) None
         in Q_orderBy
              (Q_join selectQuery1 ''INNER JOIN''
                 (Q_whereExpr
                    (Q_column (Q_column (Q_distinctOn (NewSelectQuery lookupTableName None) ''resourceId'')
                                 (Inl ''resourceId'')) (Inl ''value''))
                    (TypedCondition (Column (Some lookupTableName) ''code'' False None) ''=''
                       (PString (sr_code sortRule)) None))
                 joinName joinOnExpression)
              (Column (Some joinName) ''value'' False None) (sr_descending sortRule))
      else
        Q_orderBy selectQuery
          (Column None
             (''substring(a2t(token),'' @
              escapeLiteral (sr_code sortRule @ DELIM @ DELIM @ ''([^'' @ ARRAY_DELIM @ '']+)'') @ '')'')
             True None)
          (sr_descending sortRule))"

section \<open>Example inputs\<close>

text \<open>
  Modelled from the spec: the atoms' \<open>toString\<close> (../fhirpath/atoms is not among the
  sources), as the FHIRPath surface syntax in which the spec writes expressions
  (\<open>A.x | B.y\<close>, \<open>x as T\<close>, \<open>where(resolve() is T)\<close>). The examples below use it for the
  \<open>toString\<close> parameter; the general theorems hold for every rendering.
\<close>

fun renderAtom :: "Atom \<Rightarrow> string" where
  "renderAtom (OtherAtom name) = name"
| "renderAtom (DotAtom l r) = renderAtom l @ ''.'' @ renderAtom r"
| "renderAtom (UnionAtom l r) = renderAtom l @ '' | '' @ renderAtom r"
| "renderAtom (AsAtom l r) = renderAtom l @ '' as '' @ renderAtom r"
| "renderAtom (IsAtom l r) = renderAtom l @ '' is '' @ renderAtom r"
| "renderAtom (IndexerAtom l e) = renderAtom l @ ''['' @ renderAtom e @ '']''"
| "renderAtom (FunctionAtom name args) = name @ ''('' @ join '', '' (map renderAtom args) @ '')''"
| "renderAtom (BooleanInfixOperatorAtom opr l r) =
     renderAtom l @ '' '' @ opr @ '' '' @ renderAtom r"

text \<open>A path \<open>a.b.c\<close> of symbols, as the parser nests it.\<close>

fun path :: "Atom \<Rightarrow> string list \<Rightarrow> Atom" where
  "path a [] = a"
| "path a (n # ns) = path (DotAtom a (OtherAtom n)) ns"

definition element :: "string \<Rightarrow> bool \<Rightarrow> string list \<Rightarrow> InternalSchemaElement" where
  "element p a t = \<lparr>el_path = p, el_isArray = a, el_type = t\<rparr>"

text \<open>A small structural schema with elements of the FHIR resource types.\<close>

definition exampleSchema :: schema where
  "exampleSchema baseType propertyName =
     (if baseType = ''Observation'' \<and> propertyName = ''code''
        then Some (element ''Observation.code'' False [''CodeableConcept''])
      else if baseType = ''Patient'' \<and> propertyName = ''name''
        then Some (element ''Patient.name'' True [''HumanName''])
      else if baseType = ''Patient'' \<and> propertyName = ''birthDate''
        then Some (element ''Patient.birthDate'' False [''date''])
      else if baseType = ''Patient'' \<and> propertyName = ''identifier''
        then Some (element ''Patient.identifier'' True [''Identifier''])
      else if baseType = ''Condition'' \<and> propertyName = ''extension''
        then Some (element ''Condition.extension'' True [''Extension''])
      else if baseType = ''Condition'' \<and> propertyName = ''identifier''
        then Some (element ''Condition.identifier'' True [''Identifier''])
      else if baseType = ''Extension'' \<and> propertyName = ''valueDateTime''
        then Some (element ''Extension.value[x]'' False [''dateTime''])
      else if baseType = ''RiskAssessment'' \<and> propertyName = ''prediction''
        then Some (element ''RiskAssessment.prediction'' True [''RiskAssessmentPrediction''])
      else if baseType = ''RiskAssessmentPrediction'' \<and> propertyName = ''probability''
        then Some (element ''RiskAssessment.prediction.probability[x]'' False [''decimal'', ''Range''])
      else if baseType = ''Parameters'' \<and> propertyName = ''parameter''
        then Some (element ''Parameters.parameter'' True [''ParametersParameter''])
      else if baseType = ''ParametersParameter'' \<and> propertyName = ''value''
        then Some (element ''Parameters.parameter.value[x]'' False
                     [''string'', ''ContactPoint'', ''Identifier''])
      else None)"

definition observationCode :: SearchParameter where
  "observationCode =
     \<lparr>sp_id = Some ''clinical-code'', sp_code = ''code'', sp_type = ''token'',
      sp_expression = path (OtherAtom ''Observation'') [''code'']\<rparr>"

definition patientName :: SearchParameter where
  "patientName =
     \<lparr>sp_id = Some ''Patient-name'', sp_code = ''name'', sp_type = ''string'',
      sp_expression = path (OtherAtom ''Patient'') [''name'']\<rparr>"

definition patientBirthdate :: SearchParameter where
  "patientBirthdate =
     \<lparr>sp_id = Some ''individual-birthdate'', sp_code = ''birthdate'', sp_type = ''date'',
      sp_expression = path (OtherAtom ''Patient'') [''birthDate'']\<rparr>"

definition riskProbability :: SearchParameter where
  "riskProbability =
     \<lparr>sp_id = Some ''RiskAssessment-probability'', sp_code = ''probability'', sp_type = ''number'',
      sp_expression = path (OtherAtom ''RiskAssessment'') [''prediction'', ''probability'']\<rparr>"

text \<open>
  A token parameter over the choice-of-type element \<open>Parameters.parameter.value[x]\<close>, whose
  types include both ContactPoint and Identifier.
\<close>

definition parameterValue :: SearchParameter where
  "parameterValue =
     \<lparr>sp_id = Some ''Parameters-value'', sp_code = ''value'', sp_type = ''token'',
      sp_expression = path (OtherAtom ''Parameters'') [''parameter'', ''value'']\<rparr>"

text \<open>
  A parameter with two clauses for the same resource type, the first one ending in
  \<open>extension.valueDateTime\<close>.
\<close>

definition assertedOrIdentifier :: SearchParameter where
  "assertedOrIdentifier =
     \<lparr>sp_id = Some ''Condition-asserted'', sp_code = ''asserted'', sp_type = ''token'',
      sp_expression =
        UnionAtom (path (OtherAtom ''Condition'') [''extension'', ''valueDateTime''])
                  (path (OtherAtom ''Condition'') [''identifier''])\<rparr>"

definition assertedDate :: SearchParameter where
  "assertedDate =
     \<lparr>sp_id = Some ''us-core-condition-asserted-date'', sp_code = ''asserted-date'', sp_type = ''date'',
      sp_expression = path (OtherAtom ''Condition'') [''extension'', ''valueDateTime'']\<rparr>"

definition patientRace :: SearchParameter where
  "patientRace =
     \<lparr>sp_id = Some ''us-core-race'', sp_code = ''race'', sp_type = ''token'',
      sp_expression = path (OtherAtom ''Patient'') [''extension'', ''extension'', ''value'', ''coding'', ''code'']\<rparr>"

text \<open>A boolean comparison whose rendering ends in \<open>extension.value.code\<close>.\<close>

definition activeIsCode :: SearchParameter where
  "activeIsCode =
     \<lparr>sp_id = Some ''Patient-active-code'', sp_code = ''active-code'', sp_type = ''token'',
      sp_expression =
        BooleanInfixOperatorAtom ''=''
          (path (OtherAtom ''Patient'') [''active''])
          (path (OtherAtom ''Patient'') [''extension'', ''value'', ''code''])\<rparr>"



definition dupDatePlan :: SearchParameterDetails where
  "dupDatePlan =
     \<lparr>columnName = ''dup'', detailsType = DATE,
      elementDefinitions = [element ''Patient.birthDate'' False [''date'']],
      array = False, implementation = ImplColumn\<rparr>"


definition emptyBuilder :: SearchParameterDetailsBuilder where
  "emptyBuilder = \<lparr>b_elementDefinitions = [], b_propertyTypes = {}, b_array = False\<rparr>"

definition emptySchema :: globalSchema where
  "emptySchema = Map.empty"

text \<open>
  Modelled from the spec: \<open>splitSearchOnComma\<close> (the core package's helper is not among the
  sources), which splits a filter value into its comma-separated entries.
\<close>

definition commaSplit :: "string \<Rightarrow> string list" where
  "commaSplit s = split CHR '','' s"

text \<open>The CodeableConcept of the specification's scenario.\<close>

definition fever :: CodeableConcept where
  "fever = \<lparr>cc_text = Some ''Fever'',
            cc_coding = Some [\<lparr>coding_system = Some ''http://loinc.org'',
                               coding_code = Some ''386661006'',
                               coding_display = Some ''Fever''\<rparr>]\<rparr>"

text \<open>
  A Parameters resource in which two parameters carry the same Identifier value: the
  evaluator returns the value twice for the path of \<open>parameterValue\<close>.
\<close>

definition identifierABC :: Identifier where
  "identifierABC = \<lparr>identifier_system = Some ''urn:sys'', identifier_value = Some ''ABC''\<rparr>"

definition exampleEvaluator :: evaluator where
  "exampleEvaluator expression resource =
     (if expression = sp_expression parameterValue
      then [IdentifierValue (Some identifierABC), IdentifierValue (Some identifierABC)]
      else [])"

text \<open>
  Modelled from the spec: \<open>deriveIdentifierSearchParameter\<close> (./util is not among the
  sources), the identifier-shaped companion of a reference parameter, with an
  \<open>:identifier\<close>-suffixed code. The example resource type has no reference parameter.
\<close>

definition exampleDerive :: "SearchParameter \<Rightarrow> SearchParameter" where
  "exampleDerive sp =
     \<lparr>sp_id = None, sp_code = sp_code sp @ '':identifier'', sp_type = ''token'',
      sp_expression = DotAtom (sp_expression sp) (OtherAtom ''identifier'')\<rparr>"

definition exampleSearchParameters :: "string \<Rightarrow> SearchParameter list option" where
  "exampleSearchParameters resourceType =
     (if resourceType = ''Parameters'' then Some [parameterValue] else None)"

text \<open>Filters on the token parameter \<open>Observation.code\<close>, and the column of its tokens.\<close>

definition notEquals :: Filter where
  "notEquals = \<lparr>f_code = ''code'', f_operator = Op_NOT_EQUALS, f_value = ''a,b''\<rparr>"

definition missingFilter :: "FhirOperator \<Rightarrow> string \<Rightarrow> Filter" where
  "missingFilter opr literal = \<lparr>f_code = ''code'', f_operator = opr, f_value = literal\<rparr>"

definition codeColumn :: Column where
  "codeColumn = Column (Some ''Observation'') ''code'' False None"

text \<open>The plans that the compiler yields for the example parameters.\<close>

definition observationCodePlan :: SearchParameterDetails where
  "observationCodePlan =
     \<lparr>columnName = ''code'', detailsType = TEXT,
      elementDefinitions = [element ''Observation.code'' False [''CodeableConcept'']],
      array = False, implementation = ImplTokenColumns\<rparr>"

definition patientNamePlan :: SearchParameterDetails where
  "patientNamePlan =
     \<lparr>columnName = ''name'', detailsType = TEXT,
      elementDefinitions = [element ''Patient.name'' True [''HumanName'']],
      array = True, implementation = ImplLookupTable\<rparr>"

definition riskProbabilityPlan :: SearchParameterDetails where
  "riskProbabilityPlan =
     \<lparr>columnName = ''probability'', detailsType = NUMBER,
      elementDefinitions =
        [element ''RiskAssessment.prediction.probability[x]'' False [''decimal'', ''Range'']],
      array = True, implementation = ImplColumn\<rparr>"

definition assertedDatePlan :: SearchParameterDetails where
  "assertedDatePlan =
     \<lparr>columnName = ''assertedDate'', detailsType = DATETIME,
      elementDefinitions = [element ''Extension.value[x]'' False [''dateTime'']],
      array = False, implementation = ImplColumn\<rparr>"

definition patientRacePlan :: SearchParameterDetails where
  "patientRacePlan =
     \<lparr>columnName = ''race'', detailsType = TEXT, elementDefinitions = [],
      array = True, implementation = ImplColumn\<rparr>"


section \<open>The statements of the specification\<close>

text \<open>
  The semantic type as the specification derives it from the declared type and the set of
  narrowed property types.
\<close>

definition specSemanticType :: "string \<Rightarrow> string set \<Rightarrow> SearchParameterType" where
  "specSemanticType declared narrowed =
     (if declared = ''date'' then (if narrowed = {''date''} then DATE else DATETIME)
      else if declared = ''reference'' then
        (if ''canonical'' \<in> narrowed then CANONICAL else REFERENCE)
      else if declared = ''token'' then (if narrowed = {''boolean''} then BOOLEAN else TEXT)
      else if declared = ''number'' then NUMBER
      else if declared = ''quantity'' then QUANTITY
      else TEXT)"

text \<open>
  A clause whose flattened form is one boolean infix atom; a clause that ends in
  \<open>extension.value.code\<close> or \<open>extension.value.coding.code\<close>; a clause that ends in
  \<open>extension.valueDateTime\<close>.
\<close>

definition loneBooleanInfix :: "Atom \<Rightarrow> bool" where
  "loneBooleanInfix e =
     (length (flattenAtom e) = 1 \<and> isBooleanInfixOperatorAtom (hd (flattenAtom e)))"

definition endsInExtensionCode :: "render \<Rightarrow> Atom \<Rightarrow> bool" where
  "endsInExtensionCode ts e =
     (suffix ''extension.value.code'' (flattenedExpression ts (flattenAtom e)) \<or>
      suffix ''extension.value.coding.code'' (flattenedExpression ts (flattenAtom e)))"

definition endsInExtensionDateTime :: "render \<Rightarrow> Atom \<Rightarrow> bool" where
  "endsInExtensionDateTime ts e =
     suffix ''extension.valueDateTime'' (flattenedExpression ts (flattenAtom e))"


text \<open>
  The candidate tokens (system, value) of a Coding and of a CodeableConcept, in the words
  of the specification: for a Coding, \<open>{text, display}\<close> if the display is present, plus
  \<open>{system, code}\<close>; for a CodeableConcept, \<open>{text, concept.text}\<close> if the text is present,
  plus the tokens of each contained Coding. A string is present when it is there and not
  empty. \<open>retainAll\<close> hands the candidates, in order, to the retention rule
  \<open>buildSimpleToken\<close>.
\<close>

definition specCodingTokens :: "Coding \<Rightarrow> (string option \<times> string option) list" where
  "specCodingTokens coding =
     (if truthy (coding_display coding) then [(Some ''text'', coding_display coding)] else [])
     @ [(coding_system coding, coding_code coding)]"

definition specCodeableConceptTokens :: "CodeableConcept \<Rightarrow> (string option \<times> string option) list" where
  "specCodeableConceptTokens concept =
     (if truthy (cc_text concept) then [(Some ''text'', cc_text concept)] else [])
     @ concat (map specCodingTokens (case cc_coding concept of None \<Rightarrow> [] | Some codings \<Rightarrow> codings))"

definition retainAll ::
  "LookupToken list \<Rightarrow> SearchParameter \<Rightarrow> bool \<Rightarrow> (string option \<times> string option) list
     \<Rightarrow> LookupToken list" where
  "retainAll result sp caseSensitive candidates =
     foldl (\<lambda>r (system, val). buildSimpleToken r sp caseSensitive system val) result candidates"

text \<open>A single condition on a column, as opposed to a negation or a combination.\<close>

fun isTypedCondition :: "Expression \<Rightarrow> bool" where
  "isTypedCondition (TypedCondition c opr p t) = True"
| "isTypedCondition e = False"

section \<open>Properties\<close>

subsection \<open>Strings and membership\<close>

lemma startsWith_prefix: "startsWith s p = prefix p s"
  unfolding startsWith_def
  by (metis append_eq_conv_conj prefix_def)

lemma endsWith_suffix: "endsWith s p = suffix p s"
proof
  assume "endsWith s p"
  then have "s = take (length s - length p) s @ p"
    unfolding endsWith_def by (metis append_take_drop_id)
  then show "suffix p s" unfolding suffix_def by blast
next
  assume "suffix p s"
  then obtain zs where "s = zs @ p" unfolding suffix_def by blast
  then show "endsWith s p" unfolding endsWith_def by simp
qed

lemma arrayIncludes_set: "arrayIncludes xs v = (\<exists>i. v = Some i \<and> i \<in> set xs)"
  unfolding arrayIncludes_def by (cases v) simp_all

subsection \<open>Storage strategy\<close>

lemma typesHaveToken_set:
  "typesHaveToken ts =
     (\<exists>t\<in>set ts. t \<in> {''Identifier'', ''CodeableConcept'', ''Coding'', ''ContactPoint''})"
  by (induction ts)
     (auto simp: PropertyType_Identifier_def PropertyType_CodeableConcept_def
        PropertyType_Coding_def PropertyType_ContactPoint_def)

lemma elementsHaveToken_set:
  "elementsHaveToken eds =
     (\<exists>ed\<in>set eds. \<exists>t\<in>set (el_type ed).
        t \<in> {''Identifier'', ''CodeableConcept'', ''Coding'', ''ContactPoint''})"
  by (induction eds) (simp_all add: typesHaveToken_set)

lemma isLookupTableParam_iff:
  "isLookupTableParam sp b =
     ((\<exists>i. sp_id sp = Some i \<and> i \<in> set nameParams \<union> set telecomParams \<union> set addressParams)
      \<or> prefix ''address-'' (sp_code sp))"
  unfolding isLookupTableParam_def by (auto simp: arrayIncludes_set startsWith_prefix)

lemma isTokenParam_iff:
  "isTokenParam sp b =
     (sp_type sp = ''token'' \<and>
      (suffix '':identifier'' (sp_code sp) \<or>
       (\<exists>ed\<in>set (b_elementDefinitions b). \<exists>t\<in>set (el_type ed).
          t \<in> {''Identifier'', ''CodeableConcept'', ''Coding'', ''ContactPoint''})))"
  unfolding isTokenParam_def by (simp add: endsWith_suffix elementsHaveToken_set)

lemma buildPlan_Inr:
  assumes "buildPlan ts sch rt sp = Inr plan"
  obtains b where "buildBuilder ts sch rt sp = Inr b"
    and "plan = \<lparr>columnName = convertCodeToColumnName (sp_code sp),
               detailsType = getSearchParameterType sp (b_propertyTypes b),
               elementDefinitions = b_elementDefinitions b,
               array = b_array b,
               implementation =
                 (if isLookupTableParam sp b then ImplLookupTable
                  else if isTokenParam sp b then ImplTokenColumns
                  else ImplColumn)\<rparr>"
  using assms unfolding buildPlan_def by (auto split: sum.splits)

lemma plan_observationCode:
  "buildPlan renderAtom exampleSchema ''Observation'' observationCode = Inr observationCodePlan"
  by code_simp

lemma plan_patientName:
  "buildPlan renderAtom exampleSchema ''Patient'' patientName = Inr patientNamePlan"
  by code_simp

lemma plan_riskProbability:
  "buildPlan renderAtom exampleSchema ''RiskAssessment'' riskProbability = Inr riskProbabilityPlan"
  by code_simp

text \<open>
  C3. Whenever compilation yields a plan, its storage strategy is the lookup table exactly
  when the parameter's id is in one of the three fixed lists (name, telecom, address) or
  its code starts with \<open>address-\<close>; otherwise it is the token columns exactly when the
  declared type is \<open>token\<close> and the code ends in \<open>:identifier\<close> or some resolved element
  definition has a type among Identifier, CodeableConcept, Coding, ContactPoint; otherwise
  it is the inline column. So a parameter of declared type \<open>number\<close> that the first rule
  does not send to the lookup table is an inline column.
\<close>

theorem storageStrategy_classification:
  assumes "buildPlan ts sch resourceType sp = Inr plan"
  shows "implementation plan =
     (if (\<exists>i. sp_id sp = Some i \<and> i \<in> set nameParams \<union> set telecomParams \<union> set addressParams)
         \<or> prefix ''address-'' (sp_code sp)
      then ImplLookupTable
      else if sp_type sp = ''token'' \<and>
              (suffix '':identifier'' (sp_code sp) \<or>
               (\<exists>ed\<in>set (elementDefinitions plan). \<exists>t\<in>set (el_type ed).
                  t \<in> {''Identifier'', ''CodeableConcept'', ''Coding'', ''ContactPoint''}))
      then ImplTokenColumns
      else ImplColumn)
    \<and> (sp_type sp = ''number'' \<and>
       \<not> ((\<exists>i. sp_id sp = Some i \<and> i \<in> set nameParams \<union> set telecomParams \<union> set addressParams)
          \<or> prefix ''address-'' (sp_code sp))
       \<longrightarrow> implementation plan = ImplColumn)"
proof -
  from assms obtain b where b: "buildBuilder ts sch resourceType sp = Inr b"
    and plan: "plan = \<lparr>columnName = convertCodeToColumnName (sp_code sp),
               detailsType = getSearchParameterType sp (b_propertyTypes b),
               elementDefinitions = b_elementDefinitions b,
               array = b_array b,
               implementation =
                 (if isLookupTableParam sp b then ImplLookupTable
                  else if isTokenParam sp b then ImplTokenColumns
                  else ImplColumn)\<rparr>"
    by (rule buildPlan_Inr)
  have eds: "elementDefinitions plan = b_elementDefinitions b" by (simp add: plan)
  have impl: "implementation plan =
          (if isLookupTableParam sp b then ImplLookupTable
           else if isTokenParam sp b then ImplTokenColumns else ImplColumn)"
    by (simp add: plan)
  have first: "implementation plan =
     (if (\<exists>i. sp_id sp = Some i \<and> i \<in> set nameParams \<union> set telecomParams \<union> set addressParams)
         \<or> prefix ''address-'' (sp_code sp)
      then ImplLookupTable
      else if sp_type sp = ''token'' \<and>
              (suffix '':identifier'' (sp_code sp) \<or>
               (\<exists>ed\<in>set (elementDefinitions plan). \<exists>t\<in>set (el_type ed).
                  t \<in> {''Identifier'', ''CodeableConcept'', ''Coding'', ''ContactPoint''}))
      then ImplTokenColumns
      else ImplColumn)"
    using impl unfolding isLookupTableParam_iff isTokenParam_iff eds by simp
  have second: "sp_type sp = ''number'' \<and>
       \<not> ((\<exists>i. sp_id sp = Some i \<and> i \<in> set nameParams \<union> set telecomParams \<union> set addressParams)
          \<or> prefix ''address-'' (sp_code sp))
       \<longrightarrow> implementation plan = ImplColumn"
    using first by simp
  from first second show ?thesis by blast
qed

theorem storageStrategy_classification_witness:
  "buildPlan renderAtom exampleSchema ''Observation'' observationCode = Inr observationCodePlan
   \<and> implementation observationCodePlan = ImplTokenColumns
   \<and> buildPlan renderAtom exampleSchema ''Patient'' patientName = Inr patientNamePlan
   \<and> implementation patientNamePlan = ImplLookupTable
   \<and> buildPlan renderAtom exampleSchema ''RiskAssessment'' riskProbability = Inr riskProbabilityPlan
   \<and> sp_type riskProbability = ''number''
   \<and> implementation riskProbabilityPlan = ImplColumn"
  using storageStrategy_classification [OF plan_observationCode]
    storageStrategy_classification [OF plan_patientName]
    storageStrategy_classification [OF plan_riskProbability]
    plan_observationCode plan_patientName plan_riskProbability
  by (simp add: observationCodePlan_def patientNamePlan_def riskProbabilityPlan_def
        riskProbability_def)

subsection \<open>Semantic type\<close>

lemma single_iff: "(card A = 1 \<and> x \<in> A) = (A = {x})"
  by (auto simp: card_1_singleton_iff)

lemma getSearchParameterType_spec:
  "getSearchParameterType sp pts = specSemanticType (sp_type sp) pts"
  unfolding getSearchParameterType_def specSemanticType_def single_iff
    PropertyType_date_def PropertyType_canonical_def PropertyType_boolean_def
  by simp

lemma builder_patientBirthdate:
  "buildBuilder renderAtom exampleSchema ''Patient'' patientBirthdate =
     Inr \<lparr>b_elementDefinitions = [element ''Patient.birthDate'' False [''date'']],
          b_propertyTypes = {''date''}, b_array = False\<rparr>"
  by code_simp

text \<open>
  C6. Whenever the walk over the clauses yields a builder, compilation yields a plan whose
  semantic type is the one that the specification derives from the declared type and the
  builder's set of narrowed property types: date gives DATE only when the set is exactly
  \<open>{date}\<close> and DATETIME otherwise; reference gives CANONICAL when canonical is in the
  set and REFERENCE otherwise; token gives BOOLEAN only when the set is exactly
  \<open>{boolean}\<close> and TEXT otherwise; number gives NUMBER; quantity gives QUANTITY; every
  other declared type gives TEXT.
\<close>

theorem semanticType_derivation:
  assumes "buildBuilder ts sch resourceType sp = Inr b"
  shows "\<exists>plan. buildPlan ts sch resourceType sp = Inr plan \<and>
           detailsType plan = specSemanticType (sp_type sp) (b_propertyTypes b)"
  using assms by (simp add: buildPlan_def getSearchParameterType_spec)

theorem semanticType_derivation_witness:
  "buildBuilder renderAtom exampleSchema ''Patient'' patientBirthdate =
     Inr \<lparr>b_elementDefinitions = [element ''Patient.birthDate'' False [''date'']],
          b_propertyTypes = {''date''}, b_array = False\<rparr>
   \<and> (\<exists>plan. buildPlan renderAtom exampleSchema ''Patient'' patientBirthdate = Inr plan \<and>
          detailsType plan = DATE)"
  using semanticType_derivation [OF builder_patientBirthdate] builder_patientBirthdate
  by (simp add: specSemanticType_def patientBirthdate_def)

subsection \<open>The compiled-plan cache\<close>







subsection \<open>The special cases for extensions\<close>

lemma buildExpressions_append:
  "buildExpressions ts sch rt b (es @ [e]) =
     (case buildExpressions ts sch rt b es of
        Inl err \<Rightarrow> Inl err
      | Inr b' \<Rightarrow> buildExpression ts sch rt b' e)"
  by (induction es arbitrary: b) (auto split: sum.splits)

lemma suffix_exclusive:
  assumes "endsWith s ''extension.value.code'' \<or> endsWith s ''extension.value.coding.code''"
  shows "\<not> endsWith s ''extension.valueDateTime''"
proof
  assume a: "endsWith s ''extension.valueDateTime''"
  then obtain zs where zs: "s = zs @ ''extension.valueDateTime''"
    unfolding endsWith_suffix suffix_def by blast
  from assms obtain ys where "s = ys @ ''.code''"
    unfolding endsWith_suffix suffix_def by auto
  with zs have "rev (zs @ ''extension.valueDateTime'') = rev (ys @ ''.code'')" by simp
  then show False by simp
qed

lemma buildExpression_code:
  assumes "\<not> loneBooleanInfix e" and "endsInExtensionCode ts e"
  shows "buildExpression ts sch rt b e = Inr (addPropertyType ''code'' (b\<lparr>b_array := True\<rparr>))"
proof -
  from assms(2) have s: "endsWith (flattenedExpression ts (flattenAtom e)) ''extension.value.code'' \<or>
         endsWith (flattenedExpression ts (flattenAtom e)) ''extension.value.coding.code''"
    by (simp add: endsWith_suffix endsInExtensionCode_def)
  from suffix_exclusive [OF s] s assms(1) show ?thesis
    unfolding buildExpression_def loneBooleanInfix_def by (auto simp: Let_def)
qed

lemma buildExpression_dateTime:
  assumes "endsInExtensionDateTime ts e"
    and "buildExpression ts sch rt b e = Inr b'"
  shows "\<not> b_array b'"
  using assms unfolding buildExpression_def endsWith_suffix [symmetric] endsInExtensionDateTime_def
  by (auto simp: Let_def split: sum.splits if_splits)

lemma buildPlan_last:
  assumes "getExpressionsForResourceType ts rt (sp_expression sp) = es @ [e]"
    and "buildPlan ts sch rt sp = Inr plan"
  shows "\<exists>b b'. buildExpression ts sch rt b e = Inr b' \<and> array plan = b_array b'"
proof -
  from assms(2) obtain bb where bb: "buildBuilder ts sch rt sp = Inr bb"
    and arr: "array plan = b_array bb"
    unfolding buildPlan_def by (auto split: sum.splits)
  from bb assms(1) show ?thesis
    unfolding buildBuilder_def arr
    by (auto simp: buildExpressions_append split: sum.splits)
qed

text \<open>
  C8, as amended. The two special cases act on the clause that is being processed. A
  clause that is not a lone boolean infix atom and ends in \<open>extension.value.code\<close> or
  \<open>extension.value.coding.code\<close> is not walked against the schema: it sets the array flag
  and adds the narrowed type \<open>code\<close>. After a clause that ends in
  \<open>extension.valueDateTime\<close> the array flag is false, whatever the walk found. The plan
  carries the flag that the last retained clause leaves: when that clause is of the first
  kind the plan is an array plan, and when it ends in \<open>extension.valueDateTime\<close> the plan
  is not.
\<close>

theorem extension_special_cases:
  "(\<not> loneBooleanInfix e \<and> endsInExtensionCode ts e \<longrightarrow>
      buildExpression ts sch rt b e = Inr (addPropertyType ''code'' (b\<lparr>b_array := True\<rparr>)))
   \<and> (endsInExtensionDateTime ts e \<longrightarrow>
        (\<forall>b'. buildExpression ts sch rt b e = Inr b' \<longrightarrow> \<not> b_array b'))
   \<and> (getExpressionsForResourceType ts rt (sp_expression sp) = es @ [e] \<and>
      buildPlan ts sch rt sp = Inr plan \<longrightarrow>
        (\<not> loneBooleanInfix e \<and> endsInExtensionCode ts e \<longrightarrow> array plan) \<and>
        (endsInExtensionDateTime ts e \<longrightarrow> \<not> array plan))"
proof (intro conjI impI allI)
  assume "\<not> loneBooleanInfix e \<and> endsInExtensionCode ts e"
  then show "buildExpression ts sch rt b e = Inr (addPropertyType ''code'' (b\<lparr>b_array := True\<rparr>))"
    by (simp add: buildExpression_code)
next
  fix b'
  assume "endsInExtensionDateTime ts e" and "buildExpression ts sch rt b e = Inr b'"
  then show "\<not> b_array b'" by (rule buildExpression_dateTime)
next
  assume a: "getExpressionsForResourceType ts rt (sp_expression sp) = es @ [e] \<and>
      buildPlan ts sch rt sp = Inr plan"
    and c: "\<not> loneBooleanInfix e \<and> endsInExtensionCode ts e"
  from a obtain b0 b' where "buildExpression ts sch rt b0 e = Inr b'" and "array plan = b_array b'"
    using buildPlan_last by blast
  with c show "array plan" by (auto simp: buildExpression_code addPropertyType_def)
next
  assume a: "getExpressionsForResourceType ts rt (sp_expression sp) = es @ [e] \<and>
      buildPlan ts sch rt sp = Inr plan"
    and c: "endsInExtensionDateTime ts e"
  from a obtain b0 b' where "buildExpression ts sch rt b0 e = Inr b'" and "array plan = b_array b'"
    using buildPlan_last by blast
  with c show "\<not> array plan" using buildExpression_dateTime by blast
qed

lemma race_clause:
  "\<not> loneBooleanInfix (sp_expression patientRace) \<and>
   endsInExtensionCode renderAtom (sp_expression patientRace)"
  by code_simp

lemma race_plan:
  "getExpressionsForResourceType renderAtom ''Patient'' (sp_expression patientRace) =
     [] @ [sp_expression patientRace] \<and>
   buildPlan renderAtom exampleSchema ''Patient'' patientRace = Inr patientRacePlan"
  by code_simp

lemma asserted_clause: "endsInExtensionDateTime renderAtom (sp_expression assertedDate)"
  by code_simp

lemma asserted_plan:
  "getExpressionsForResourceType renderAtom ''Condition'' (sp_expression assertedDate) =
     [] @ [sp_expression assertedDate] \<and>
   buildPlan renderAtom exampleSchema ''Condition'' assertedDate = Inr assertedDatePlan"
  by code_simp

theorem extension_special_cases_witness:
  "\<not> loneBooleanInfix (sp_expression patientRace)
   \<and> endsInExtensionCode renderAtom (sp_expression patientRace)
   \<and> buildExpression renderAtom exampleSchema ''Patient'' emptyBuilder (sp_expression patientRace) =
       Inr (addPropertyType ''code'' (emptyBuilder\<lparr>b_array := True\<rparr>))
   \<and> buildPlan renderAtom exampleSchema ''Patient'' patientRace = Inr patientRacePlan
   \<and> array patientRacePlan
   \<and> endsInExtensionDateTime renderAtom (sp_expression assertedDate)
   \<and> buildPlan renderAtom exampleSchema ''Condition'' assertedDate = Inr assertedDatePlan
   \<and> \<not> array assertedDatePlan"
proof -
  note race = extension_special_cases [of "sp_expression patientRace" renderAtom exampleSchema
      "''Patient''" emptyBuilder patientRace "[]" patientRacePlan]
  note asserted = extension_special_cases [of "sp_expression assertedDate" renderAtom exampleSchema
      "''Condition''" emptyBuilder assertedDate "[]" assertedDatePlan]
  from race race_clause race_plan
  have r: "buildExpression renderAtom exampleSchema ''Patient'' emptyBuilder (sp_expression patientRace) =
       Inr (addPropertyType ''code'' (emptyBuilder\<lparr>b_array := True\<rparr>)) \<and> array patientRacePlan"
    by blast
  from asserted asserted_clause asserted_plan
  have a: "\<not> array assertedDatePlan" by blast
  from r a race_clause race_plan asserted_clause asserted_plan show ?thesis by blast
qed

text \<open>
  The claim C8 as it is written fails on a parameter with two clauses for the same
  resource type: the first clause ends in \<open>extension.valueDateTime\<close>, the second one walks
  a multi-valued element, and the plan is an array plan. It also fails on a lone boolean
  comparison whose rendering ends in \<open>extension.value.code\<close>: the plan is not an array plan.
\<close>

theorem extension_special_cases_counterexample:
  "getExpressionsForResourceType renderAtom ''Condition'' (sp_expression assertedOrIdentifier) =
     [path (OtherAtom ''Condition'') [''extension'', ''valueDateTime''],
      path (OtherAtom ''Condition'') [''identifier'']]
   \<and> endsWith (flattenedExpression renderAtom
                 (flattenAtom (path (OtherAtom ''Condition'') [''extension'', ''valueDateTime''])))
        ''extension.valueDateTime''
   \<and> buildPlan renderAtom exampleSchema ''Condition'' assertedOrIdentifier =
       Inr \<lparr>columnName = ''asserted'', detailsType = TEXT,
            elementDefinitions = [element ''Extension.value[x]'' False [''dateTime''],
                                  element ''Condition.identifier'' True [''Identifier'']],
            array = True, implementation = ImplTokenColumns\<rparr>
   \<and> getExpressionsForResourceType renderAtom ''Patient'' (sp_expression activeIsCode) =
       [sp_expression activeIsCode]
   \<and> endsWith (flattenedExpression renderAtom (flattenAtom (sp_expression activeIsCode)))
        ''extension.value.code''
   \<and> buildPlan renderAtom exampleSchema ''Patient'' activeIsCode =
       Inr \<lparr>columnName = ''activeCode'', detailsType = BOOLEAN, elementDefinitions = [],
            array = False, implementation = ImplColumn\<rparr>"
  by code_simp

subsection \<open>Case sensitivity\<close>



lemma toLowerCase_Nil: "(toLowerCase s = []) = (s = [])"
  unfolding toLowerCase_def by simp













subsection \<open>Tokens of a CodeableConcept\<close>

lemma retainAll_append:
  "retainAll result sp cs (xs @ ys) = retainAll (retainAll result sp cs xs) sp cs ys"
  by (simp add: retainAll_def)

lemma buildCodingToken_spec:
  "buildCodingToken result sp cs (Some c) = retainAll result sp cs (specCodingTokens c)"
  by (simp add: buildCodingToken_def specCodingTokens_def retainAll_def Let_def)

lemma buildCodingTokens_spec:
  "buildCodingTokens result sp cs codings =
     retainAll result sp cs (concat (map specCodingTokens codings))"
proof (induction codings arbitrary: result)
  case Nil
  show ?case by (simp add: retainAll_def)
next
  case (Cons c codings)
  show ?case by (simp add: Cons.IH buildCodingToken_spec retainAll_append)
qed

lemma buildCodeableConceptToken_spec:
  "buildCodeableConceptToken result sp cs (Some cc) =
     retainAll result sp cs (specCodeableConceptTokens cc)"
proof (cases "cc_coding cc")
  case None
  then show ?thesis
    by (simp add: buildCodeableConceptToken_def specCodeableConceptTokens_def retainAll_def Let_def)
next
  case (Some codings)
  then show ?thesis
    by (simp add: buildCodeableConceptToken_def specCodeableConceptTokens_def Let_def
          buildCodingTokens_spec retainAll_append)
       (simp add: retainAll_def)
qed

lemma fever_tokens:
  "fst (buildTokens renderAtom exampleSchema emptySchema [] observationCode
          \<lparr>res_resourceType = ''Observation''\<rparr> (CodeableConceptValue (Some fever))) =
   Inr [\<lparr>t_code = ''code'', t_system = Some ''text'', t_value = Some ''Fever''\<rparr>,
        \<lparr>t_code = ''code'', t_system = Some ''http://loinc.org'', t_value = Some ''386661006''\<rparr>]"
  by code_simp

text \<open>
  C2. The extractor hands to the retention rule, for a CodeableConcept, the token
  \<open>{text, concept.text}\<close> when the text is present and then the tokens of each contained
  Coding; for a Coding, the token \<open>{text, display}\<close> when the display is present and then
  the token \<open>{system, code}\<close>. For the CodeableConcept of the scenario, under the token
  parameter \<open>Observation.code\<close>, the extractor yields exactly two tokens: \<open>{text, Fever}\<close>
  once, and \<open>{http://loinc.org, 386661006}\<close>.
\<close>

theorem codeableConcept_tokens:
  "buildCodeableConceptToken result sp cs (Some concept) =
     retainAll result sp cs (specCodeableConceptTokens concept)
   \<and> buildCodingToken result sp cs (Some coding) =
       retainAll result sp cs (specCodingTokens coding)
   \<and> fst (buildTokens renderAtom exampleSchema emptySchema [] observationCode
            \<lparr>res_resourceType = ''Observation''\<rparr> (CodeableConceptValue (Some fever))) =
     Inr [\<lparr>t_code = ''code'', t_system = Some ''text'', t_value = Some ''Fever''\<rparr>,
          \<lparr>t_code = ''code'', t_system = Some ''http://loinc.org'', t_value = Some ''386661006''\<rparr>]"
  using buildCodeableConceptToken_spec buildCodingToken_spec fever_tokens by blast

subsection \<open>Deduplication\<close>

lemma truthy_lower: "truthy (map_option toLowerCase v) = truthy v"
  unfolding truthy_def by (cases v) (simp_all add: toLowerCase_Nil)

lemma buildSimpleToken_keeps_nonempty:
  assumes "list_all (\<lambda>t. truthy (t_system t) \<or> truthy (t_value t)) result"
  shows "list_all (\<lambda>t. truthy (t_system t) \<or> truthy (t_value t))
           (buildSimpleToken result sp cs s v)"
  using assms unfolding buildSimpleToken_def by (auto simp: truthy_lower)

lemma buildSimpleToken_distinct_caseSensitive:
  assumes "distinct result"
  shows "distinct (buildSimpleToken result sp True s v)"
  using assms unfolding buildSimpleToken_def by (auto simp: list_ex_iff)

text \<open>
  C5 at a failing input. The token parameter \<open>parameterValue\<close> is case-insensitive (a
  ContactPoint type is among its resolved element types); the resource carries the
  Identifier \<open>urn:sys|ABC\<close> twice. \<open>buildSimpleToken\<close> looks for the value \<open>ABC\<close> among the
  retained tokens, which hold the lower-cased \<open>abc\<close>, so the second token is retained too:
  the output has the triple (value, urn:sys, abc) twice.
\<close>

theorem getTokens_duplicate:
  "fst (getTokens renderAtom exampleSchema exampleEvaluator exampleDerive exampleSearchParameters
          emptySchema \<lparr>res_resourceType = ''Parameters''\<rparr>) =
   Inr [\<lparr>t_code = ''value'', t_system = Some ''urn:sys'', t_value = Some ''abc''\<rparr>,
        \<lparr>t_code = ''value'', t_system = Some ''urn:sys'', t_value = Some ''abc''\<rparr>]"
  by code_simp

subsection \<open>Negating filters\<close>

lemma buildValueCondition_plain:
  assumes "f_operator f \<noteq> Op_TEXT" and "f_operator f \<noteq> Op_CONTAINS"
  shows "isTypedCondition (buildValueCondition esc d table f cs sys v)"
  using assms unfolding buildValueCondition_def USE_TOKEN_TABLE_def
  by (simp add: Let_def)

lemma buildWhereCondition_not:
  assumes "f_operator f = Op_NOT \<or> f_operator f = Op_NOT_EQUALS"
  shows "\<exists>t. buildWhereCondition esc d table f cs q = Some t \<and> isTypedCondition t"
proof -
  from assms have ops: "f_operator f \<noteq> Op_TEXT" "f_operator f \<noteq> Op_CONTAINS"
    "f_operator f \<noteq> Op_IN" "shouldCompareTokenValue (f_operator f)"
    by (auto simp: shouldCompareTokenValue_def)
  show ?thesis
    unfolding buildWhereCondition_def USE_TOKEN_TABLE_def
    using ops by (simp add: Let_def buildValueCondition_plain)
qed

lemma map_filter_total:
  assumes "\<And>x. \<exists>y. g x = Some y \<and> P y"
  shows "length (List.map_filter g xs) = length xs \<and> list_all P (List.map_filter g xs)"
proof (induction xs)
  case Nil
  show ?case by (simp add: List.map_filter_simps)
next
  case (Cons x xs)
  from assms [of x] obtain y where "g x = Some y" and "P y" by blast
  with Cons show ?case by (simp add: List.map_filter_simps)
qed

lemma buildWhereExpression_not:
  assumes "f_operator f = Op_NOT \<or> f_operator f = Op_NOT_EQUALS"
    and "splitSearchOnComma (f_value f) \<noteq> []"
  shows "\<exists>terms. buildWhereExpression splitSearchOnComma esc d table cs f = Some (Disjunction terms) \<and>
           length terms = length (splitSearchOnComma (f_value f)) \<and> list_all isTypedCondition terms"
proof -
  let ?terms = "List.map_filter (buildWhereCondition esc d table f cs) (splitSearchOnComma (f_value f))"
  have t: "length ?terms = length (splitSearchOnComma (f_value f)) \<and> list_all isTypedCondition ?terms"
    by (rule map_filter_total) (rule buildWhereCondition_not [OF assms(1)])
  with assms(2) have "?terms \<noteq> []" by auto
  with t show ?thesis unfolding buildWhereExpression_def by (simp add: Let_def)
qed

lemma shouldTokenRowExist_not:
  assumes "f_operator f = Op_NOT \<or> f_operator f = Op_NOT_EQUALS"
  shows "shouldTokenRowExist f = Inr False"
  using assms unfolding shouldTokenRowExist_def shouldCompareTokenValue_def by auto

text \<open>
  C7. For a filter whose operator is NOT or NOT_EQUALS and whose value splits into at
  least one entry, every condition that \<open>buildWhere\<close> returns is one negation applied to
  one disjunction; the disjunction has one term for each entry, and each term is a plain
  condition on the token column, not a negation.
\<close>

theorem negated_disjunction:
  assumes "f_operator f = Op_NOT \<or> f_operator f = Op_NOT_EQUALS"
    and "splitSearchOnComma (f_value f) \<noteq> []"
    and "fst (buildWhere ts sch splitSearchOnComma esc types rt table param f) = Inr e"
  shows "\<exists>terms. e = Negation (Disjunction terms) \<and>
           length terms = length (splitSearchOnComma (f_value f)) \<and> list_all isTypedCondition terms"
proof -
  from assms(3) obtain cs d where
    e: "e = (let w = (case buildWhereExpression splitSearchOnComma esc d table cs f of
                        Some w \<Rightarrow> w
                      | None \<Rightarrow> TypedCondition (Column (Some table) (columnName d) False None)
                                  ''ARRAY_EMPTY'' PUndefined None)
             in Negation w)"
    unfolding buildWhere_def USE_TOKEN_TABLE_def
    by (auto simp: shouldTokenRowExist_not [OF assms(1)] Let_def split: prod.splits sum.splits)
  have "\<exists>terms. buildWhereExpression splitSearchOnComma esc d table cs f = Some (Disjunction terms) \<and>
           length terms = length (splitSearchOnComma (f_value f)) \<and> list_all isTypedCondition terms"
    using assms(1) assms(2) by (rule buildWhereExpression_not)
  then obtain terms where "buildWhereExpression splitSearchOnComma esc d table cs f = Some (Disjunction terms)"
    and "length terms = length (splitSearchOnComma (f_value f))" and "list_all isTypedCondition terms"
    by blast
  with e show ?thesis by (simp add: Let_def)
qed

lemma notEquals_where:
  "fst (buildWhere renderAtom exampleSchema commaSplit id emptySchema ''Observation'' ''Observation''
          observationCode notEquals) =
   Inr (Negation (Disjunction
         [TypedCondition codeColumn ''ARRAY_CONTAINS'' (PString (DELIM @ ''a'')) (Some ''text[]''),
          TypedCondition codeColumn ''ARRAY_CONTAINS'' (PString (DELIM @ ''b'')) (Some ''text[]'')]))"
  by code_simp

lemma notEquals_hyps:
  "(f_operator notEquals = Op_NOT \<or> f_operator notEquals = Op_NOT_EQUALS) \<and>
   commaSplit (f_value notEquals) = [''a'', ''b'']"
  by code_simp

theorem negated_disjunction_witness:
  "(f_operator notEquals = Op_NOT \<or> f_operator notEquals = Op_NOT_EQUALS)
   \<and> commaSplit (f_value notEquals) = [''a'', ''b'']
   \<and> fst (buildWhere renderAtom exampleSchema commaSplit id emptySchema ''Observation'' ''Observation''
            observationCode notEquals) =
     Inr (Negation (Disjunction
         [TypedCondition codeColumn ''ARRAY_CONTAINS'' (PString (DELIM @ ''a'')) (Some ''text[]''),
          TypedCondition codeColumn ''ARRAY_CONTAINS'' (PString (DELIM @ ''b'')) (Some ''text[]'')]))
   \<and> (\<exists>terms. Negation (Disjunction
         [TypedCondition codeColumn ''ARRAY_CONTAINS'' (PString (DELIM @ ''a'')) (Some ''text[]''),
          TypedCondition codeColumn ''ARRAY_CONTAINS'' (PString (DELIM @ ''b'')) (Some ''text[]'')])
          = Negation (Disjunction terms) \<and> length terms = 2 \<and> list_all isTypedCondition terms)"
proof -
  have ne: "commaSplit (f_value notEquals) \<noteq> []" using notEquals_hyps by simp
  from negated_disjunction [OF conjunct1 [OF notEquals_hyps] ne notEquals_where]
  show ?thesis using notEquals_hyps notEquals_where by simp
qed

subsection \<open>Missing and present\<close>

text \<open>
  C1 at failing inputs. On the token parameter \<open>Observation.code\<close>, the filter
  \<open>code:missing=true\<close> (and \<open>:present=false\<close>) yields the negation of \<open>ARRAY_EMPTY\<close> on the
  token column, and \<open>code:missing=false\<close> (and \<open>:present=true\<close>) yields \<open>ARRAY_EMPTY\<close>
  itself; any other literal yields the bad-request error.
\<close>

theorem missing_present_conditions:
  "fst (buildWhere renderAtom exampleSchema commaSplit id emptySchema ''Observation'' ''Observation''
          observationCode (missingFilter Op_MISSING ''true'')) =
     Inr (Negation (TypedCondition codeColumn ''ARRAY_EMPTY'' PUndefined None))
   \<and> fst (buildWhere renderAtom exampleSchema commaSplit id emptySchema ''Observation'' ''Observation''
          observationCode (missingFilter Op_PRESENT ''false'')) =
     Inr (Negation (TypedCondition codeColumn ''ARRAY_EMPTY'' PUndefined None))
   \<and> fst (buildWhere renderAtom exampleSchema commaSplit id emptySchema ''Observation'' ''Observation''
          observationCode (missingFilter Op_MISSING ''false'')) =
     Inr (TypedCondition codeColumn ''ARRAY_EMPTY'' PUndefined None)
   \<and> fst (buildWhere renderAtom exampleSchema commaSplit id emptySchema ''Observation'' ''Observation''
          observationCode (missingFilter Op_PRESENT ''true'')) =
     Inr (TypedCondition codeColumn ''ARRAY_EMPTY'' PUndefined None)
   \<and> fst (buildWhere renderAtom exampleSchema commaSplit id emptySchema ''Observation'' ''Observation''
          observationCode (missingFilter Op_MISSING ''maybe'')) =
     Inl (BadRequest missingMessage)"
  by code_simp

subsection \<open>The token table is switched off\<close>

text \<open>
  C10. Since \<open>USE_TOKEN_TABLE\<close> is false, \<open>isIndexed\<close> returns false for every search
  parameter and resource type and leaves the cache as it is; \<open>buildWhere\<close> returns the
  condition on the array column of the resource table (the disjunction of the value
  conditions, or \<open>ARRAY_EMPTY\<close>, negated or not), never an \<open>EXISTS\<close> on the token table;
  \<open>addOrderBy\<close> adds no join and orders by the substring of the token array; and
  \<open>buildValueCondition\<close> returns the conditions on the array column.
\<close>

theorem token_table_disabled:
  "isIndexed ts sch types sp rt = (Inr False, types)
   \<and> fst (buildWhere ts sch splitSearchOnComma esc types rt table param f) =
       (case fst (isCaseSensitiveSearchParameter ts sch types param rt) of
          Inl e \<Rightarrow> Inl e
        | Inr caseSensitive \<Rightarrow>
            (case fst (getSearchParameterDetails ts sch
                         (snd (isCaseSensitiveSearchParameter ts sch types param rt)) rt param) of
               Inl e \<Rightarrow> Inl e
             | Inr details \<Rightarrow>
                 (case shouldTokenRowExist f of
                    Inl e \<Rightarrow> Inl e
                  | Inr rowExists \<Rightarrow>
                      (let whereExpression =
                             (case buildWhereExpression splitSearchOnComma esc details table
                                     caseSensitive f of
                                Some e \<Rightarrow> e
                              | None \<Rightarrow>
                                  TypedCondition (Column (Some table) (columnName details) False None)
                                    ''ARRAY_EMPTY'' PUndefined None)
                       in Inr (if rowExists then whereExpression else Negation whereExpression)))))
   \<and> addOrderBy escapeLiteral getNextJoinAlias selectQuery rt sortRule =
       Q_orderBy selectQuery
         (Column None
            (''substring(a2t(token),'' @
             escapeLiteral (sr_code sortRule @ DELIM @ DELIM @ ''([^'' @ ARRAY_DELIM @ '']+)'') @ '')'')
            True None)
         (sr_descending sortRule)
   \<and> buildValueCondition esc details table f caseSensitive system val =
       (let tokenCol = Column (Some table) (columnName details) False None;
            system1 = (if truthy system then the system else []);
            valuePart = (if trim val \<noteq> [] then DELIM @ trim val else [])
        in if f_operator f = Op_TEXT then
             Conjunction
               [TypedCondition tokenCol ''ARRAY_CONTAINS'' (PString ''text'') (Some ''text[]''),
                TypedCondition tokenCol ''ARRAY_IREGEX''
                  (PString (''text'' @ DELIM @ ''[^'' @ ARRAY_DELIM @ '']*'' @ trim val))
                  (Some ''text[]'')]
           else if f_operator f = Op_CONTAINS then
             Conjunction
               [TypedCondition tokenCol ''ARRAY_ILIKE''
                  (PString (''%'' @ ARRAY_DELIM @ DELIM @ ''%'' @ esc (trim val) @ ''%''))
                  (Some ''text[]''),
                TypedCondition tokenCol ''ARRAY_IREGEX''
                  (PString (ARRAY_DELIM @ DELIM @ ''[^'' @ ARRAY_DELIM @ '']*'' @ trim val))
                  (Some ''text[]'')]
           else if caseSensitive then
             TypedCondition tokenCol ''ARRAY_CONTAINS'' (PString (system1 @ valuePart)) (Some ''text[]'')
           else
             TypedCondition tokenCol ''ARRAY_IREGEX''
               (PString (system1 @ DELIM @ trim val @ ARRAY_DELIM)) (Some ''text[]''))"
proof (intro conjI)
  show "isIndexed ts sch types sp rt = (Inr False, types)"
    by (simp add: isIndexed_def USE_TOKEN_TABLE_def)
next
  show "fst (buildWhere ts sch splitSearchOnComma esc types rt table param f) =
       (case fst (isCaseSensitiveSearchParameter ts sch types param rt) of
          Inl e \<Rightarrow> Inl e
        | Inr caseSensitive \<Rightarrow>
            (case fst (getSearchParameterDetails ts sch
                         (snd (isCaseSensitiveSearchParameter ts sch types param rt)) rt param) of
               Inl e \<Rightarrow> Inl e
             | Inr details \<Rightarrow>
                 (case shouldTokenRowExist f of
                    Inl e \<Rightarrow> Inl e
                  | Inr rowExists \<Rightarrow>
                      (let whereExpression =
                             (case buildWhereExpression splitSearchOnComma esc details table
                                     caseSensitive f of
                                Some e \<Rightarrow> e
                              | None \<Rightarrow>
                                  TypedCondition (Column (Some table) (columnName details) False None)
                                    ''ARRAY_EMPTY'' PUndefined None)
                       in Inr (if rowExists then whereExpression else Negation whereExpression)))))"
    unfolding buildWhere_def USE_TOKEN_TABLE_def
    by (simp add: Let_def split: prod.splits sum.splits)
next
  show "addOrderBy escapeLiteral getNextJoinAlias selectQuery rt sortRule =
       Q_orderBy selectQuery
         (Column None
            (''substring(a2t(token),'' @
             escapeLiteral (sr_code sortRule @ DELIM @ DELIM @ ''([^'' @ ARRAY_DELIM @ '']+)'') @ '')'')
            True None)
         (sr_descending sortRule)"
    by (simp add: addOrderBy_def USE_TOKEN_TABLE_def)
next
  show "buildValueCondition esc details table f caseSensitive system val =
       (let tokenCol = Column (Some table) (columnName details) False None;
            system1 = (if truthy system then the system else []);
            valuePart = (if trim val \<noteq> [] then DELIM @ trim val else [])
        in if f_operator f = Op_TEXT then
             Conjunction
               [TypedCondition tokenCol ''ARRAY_CONTAINS'' (PString ''text'') (Some ''text[]''),
                TypedCondition tokenCol ''ARRAY_IREGEX''
                  (PString (''text'' @ DELIM @ ''[^'' @ ARRAY_DELIM @ '']*'' @ trim val))
                  (Some ''text[]'')]
           else if f_operator f = Op_CONTAINS then
             Conjunction
               [TypedCondition tokenCol ''ARRAY_ILIKE''
                  (PString (''%'' @ ARRAY_DELIM @ DELIM @ ''%'' @ esc (trim val) @ ''%''))
                  (Some ''text[]''),
                TypedCondition tokenCol ''ARRAY_IREGEX''
                  (PString (ARRAY_DELIM @ DELIM @ ''[^'' @ ARRAY_DELIM @ '']*'' @ trim val))
                  (Some ''text[]'')]
           else if caseSensitive then
             TypedCondition tokenCol ''ARRAY_CONTAINS'' (PString (system1 @ valuePart)) (Some ''text[]'')
           else
             TypedCondition tokenCol ''ARRAY_IREGEX''
               (PString (system1 @ DELIM @ trim val @ ARRAY_DELIM)) (Some ''text[]''))"
    by (simp add: buildValueCondition_def USE_TOKEN_TABLE_def Let_def)
qed


end
